theory Spec2Isabelle
  imports Main "HOL-Library.AList"
begin

section \<open>Salvium Guardian: the escrow server as a state machine\<close>

text \<open>
  The guardian server keeps three JavaScript \<open>Map\<close>s (\<open>pendingEscrows\<close>, \<open>bountyData\<close>,
  \<open>activeWallets\<close>) and answers eight HTTP routes; a timer sweeps stale pending escrows.
  No handler contains an \<open>await\<close>, so every handler and the sweep run to completion:
  each is a function from the state before to a response and the state after.

  Conventions of the embedding:
  \<^item> a \<open>Map\<close> is an association list in insertion order, written with \<open>map_of\<close> (\<open>get\<close>,
    \<open>has\<close>), \<open>AList.update\<close> (\<open>set\<close>: in place, or appended) and \<open>AList.delete\<close>;
  \<^item> a field of a request body is \<open>None\<close> when it is \<open>undefined\<close>, and otherwise carries a
    value of the type the interface gives it (a string, or an integer for block heights:
    JSON numbers that are integers below \<open>2^53\<close> are exact in JavaScript);
  \<^item> the WASM wallet is an external engine: a record of functions over an abstract wallet
    state \<open>'w\<close>. Wallet objects are mutable and shared by reference, so the tables hold
    handles and the wallet states live in a heap. A call either throws (\<open>Threw\<close>, which also
    stands for \<open>JSON.parse\<close> rejecting the returned text) or returns the parsed object;
    \<open>JSON.stringify\<close> of an argument list is the list itself;
  \<^item> record fields carry a one-letter prefix of their record (\<open>p_\<close>, \<open>b_\<close>, \<open>r_\<close>), since
    fields, parameters and local variables share one name space here;
  \<^item> a console line is the list of the arguments printed; a template literal with a
    number or boolean hole is kept as its pieces. The lines printed by the \<open>listen\<close> callback
    are left out.
\<close>

subsection \<open>JSON bodies and responses\<close>

datatype json =
    JNull
  | JBool bool
  | JNum int
  | JStr string
  | JArr "json list"
  | JObj "(string \<times> json) list"

text \<open>A response is the status code and the fields of the JSON object sent.\<close>

type_synonym response = "nat \<times> (string \<times> json) list"

text \<open>Truthiness of a decoded request field (\<open>!x\<close> is its negation).\<close>

definition truthy_string :: "string option \<Rightarrow> bool" where
  "truthy_string x = (case x of None \<Rightarrow> False | Some s \<Rightarrow> s \<noteq> [])"

definition truthy_number :: "int option \<Rightarrow> bool" where
  "truthy_number x = (case x of None \<Rightarrow> False | Some n \<Rightarrow> n \<noteq> 0)"

fun truthy :: "json option \<Rightarrow> bool" where
  "truthy None = False"
| "truthy (Some JNull) = False"
| "truthy (Some (JBool b)) = b"
| "truthy (Some (JNum n)) = (n \<noteq> 0)"
| "truthy (Some (JStr s)) = (s \<noteq> [])"
| "truthy (Some (JArr xs)) = True"
| "truthy (Some (JObj fs)) = True"

fun isArray :: "json option \<Rightarrow> bool" where
  "isArray (Some (JArr xs)) = True"
| "isArray _ = False"

fun elements :: "json option \<Rightarrow> json list" where
  "elements (Some (JArr xs)) = xs"
| "elements _ = []"

subsection \<open>Numbers\<close>

text \<open>
  A JavaScript number is an IEEE double. The block heights of the interface are integers, and
  an integer that is a double is modelled by itself. Comparing two of them is exact; their
  difference is the exact difference rounded to the nearest double, ties to even
  (\<open>round_double\<close>: 53 significant bits, \<open>exponent_of\<close> counts the bits cut off), and is
  \<open>Infinity\<close> (\<open>None\<close>) from \<open>2^1024\<close> on. \<open>res.json\<close> writes \<open>Infinity\<close> as \<open>null\<close>.
\<close>

function exponent_of :: "nat \<Rightarrow> nat" where
  "exponent_of m = (if m < 2 ^ 53 then 0 else Suc (exponent_of (m div 2)))"
  by pat_completeness auto
termination
  by (relation "measure (\<lambda>m. m)") auto

declare exponent_of.simps [simp del]

definition round_double :: "int \<Rightarrow> int" where
  "round_double x =
     (let m = nat \<bar>x\<bar>;
          e = exponent_of m;
          q = m div 2 ^ e;
          r = m mod 2 ^ e
      in sgn x * int ((if 2 * r > 2 ^ e \<or> (2 * r = 2 ^ e \<and> odd q) then q + 1 else q) * 2 ^ e))"

definition double_minus :: "int \<Rightarrow> int \<Rightarrow> int option" where
  "double_minus a b =
     (let x = round_double (a - b) in if \<bar>x\<bar> < 2 ^ 1024 then Some x else None)"

definition json_number :: "int option \<Rightarrow> json" where
  "json_number x = (case x of None \<Rightarrow> JNull | Some n \<Rightarrow> JNum n)"

subsection \<open>The wallet engine\<close>

datatype 'a outcome = Threw string | Returned 'a

text \<open>The fields the server reads from the objects the engine returns.\<close>

record wasm_result =
  r_success :: bool
  r_error :: string
  r_multisig_info :: string
  r_address :: string
  r_is_ready :: bool
  r_info :: string
  r_n_outputs :: int
  r_tx_data_hex :: string
  r_signers :: "string list"
  r_ready :: bool

text \<open>
  The methods of \<open>WasmWallet\<close> that the server calls. \<open>create_random\<close> takes the entropy it
  draws as an argument. The two transaction methods are optional (\<open>typeof ... === 'function'\<close>).
\<close>

record 'w engine =
  new_WasmWallet :: "'w"
  create_random :: "'w \<Rightarrow> string \<Rightarrow> string \<Rightarrow> nat \<Rightarrow> unit outcome \<times> 'w"
  enable_multisig_experimental :: "'w \<Rightarrow> unit outcome \<times> 'w"
  prepare_multisig :: "'w \<Rightarrow> wasm_result outcome \<times> 'w"
  make_multisig :: "'w \<Rightarrow> string \<Rightarrow> nat \<Rightarrow> string list \<Rightarrow> wasm_result outcome \<times> 'w"
  exchange_multisig_keys :: "'w \<Rightarrow> string \<Rightarrow> string list \<Rightarrow> wasm_result outcome \<times> 'w"
  get_seed :: "'w \<Rightarrow> string \<Rightarrow> string outcome \<times> 'w"
  export_multisig_info :: "'w \<Rightarrow> wasm_result outcome \<times> 'w"
  import_multisig_info :: "'w \<Rightarrow> json list \<Rightarrow> wasm_result outcome \<times> 'w"
  describe_multisig_tx_hex :: "('w \<Rightarrow> string \<Rightarrow> json outcome \<times> 'w) option"
  sign_multisig_tx_hex :: "('w \<Rightarrow> string \<Rightarrow> wasm_result outcome \<times> 'w) option"

subsection \<open>Server state\<close>

record pending_escrow =
  p_wallet :: nat
  p_guardian_round1 :: string
  p_created_at :: int

record bounty_info =
  b_bounty_id :: string
  b_deadline_block :: int
  b_multisig_address :: string
  b_is_ready :: bool
  b_created_at :: string
  b_wallet_mnemonic :: string

text \<open>One argument of a \<open>console.log\<close> or \<open>console.error\<close> call.\<close>

datatype console_arg = Txt string | Num int | Flag bool | Val json

text \<open>
  The three maps and the flag of the source, and what its effects act on: the heap of wallet
  objects with the next free handle, the handles on which \<open>delete()\<close> was called (in call
  order), the console lines, and the file \<open>bounties.json\<close>: \<open>None\<close> while there is no file,
  else the JSON object it holds, as the record stored under each property name.
\<close>

record 'w server =
  isInitialized :: bool
  pendingEscrows :: "(string \<times> pending_escrow) list"
  bountyData :: "(string \<times> bounty_info) list"
  activeWallets :: "(string \<times> nat) list"
  heap :: "nat \<Rightarrow> 'w"
  next_wallet :: nat
  deleted :: "nat list"
  console :: "console_arg list list"
  bounties_json :: "(string \<Rightarrow> bounty_info option) option"

text \<open>What a handler reads from outside: the clock, the entropy, the configuration, the disk.\<close>

record env =
  Date_now :: int
  toISOString :: string
  entropy :: nat
  NETWORK :: string
  writeFileSync_error :: "string option"

definition has :: "('k \<times> 'v) list \<Rightarrow> 'k \<Rightarrow> bool" where
  "has m k = (map_of m k \<noteq> None)"

definition size_of :: "('k \<times> 'v) list \<Rightarrow> int" where
  "size_of m = int (length m)"

definition console_log :: "console_arg list \<Rightarrow> 'w server \<Rightarrow> 'w server" where
  "console_log line st = st\<lparr>console := console st @ [line]\<rparr>"

definition wallet_delete :: "nat \<Rightarrow> 'w server \<Rightarrow> 'w server" where
  "wallet_delete wallet st = st\<lparr>deleted := deleted st @ [wallet]\<rparr>"

text \<open>A method call on the wallet object behind a handle: the object's state is replaced.\<close>

definition call :: "nat \<Rightarrow> ('w \<Rightarrow> 'r outcome \<times> 'w) \<Rightarrow> 'w server \<Rightarrow> 'r outcome \<times> 'w server" where
  "call wallet method st =
     (case method (heap st wallet) of
        (r, w') \<Rightarrow> (r, st\<lparr>heap := (heap st)(wallet := w')\<rparr>))"

text \<open>
  The \<open>catch\<close> block shared by the handlers: a thrown error (\<open>Inl\<close>) is printed and answered
  with status 500 and its message; a response sent inside \<open>try\<close> (\<open>Inr\<close>) goes through.
\<close>

definition try_catch :: "string \<Rightarrow> (string + response) \<times> 'w server \<Rightarrow> response \<times> 'w server" where
  "try_catch label r =
     (case r of
        (Inl err, st) \<Rightarrow> ((500, [(''error'', JStr err)]), console_log [Txt label, Txt err] st)
      | (Inr res, st) \<Rightarrow> (res, st))"

definition not_initialized :: response where
  "not_initialized = (503, [(''error'', JStr ''Guardian not initialized'')])"

subsection \<open>Persistence\<close>

text \<open>
  \<open>const data = {}; for (const [id, info] of bountyData) data[id] = info\<close>: each assignment
  sets the property \<open>id\<close> of the plain object, except for the id \<open>__proto__\<close>, where it sets
  the object's prototype and adds no property, so that \<open>JSON.stringify\<close> does not write it.
\<close>

definition object_of :: "(string \<times> bounty_info) list \<Rightarrow> (string \<Rightarrow> bounty_info option)" where
  "object_of entries =
     fold (\<lambda>(id', info) data. if id' = ''__proto__'' then data else data(id' \<mapsto> info))
       entries Map.empty"

definition saveBountyState :: "env \<Rightarrow> 'w server \<Rightarrow> unit outcome \<times> 'w server" where
  "saveBountyState env st =
     (case writeFileSync_error env of
        Some err \<Rightarrow> (Threw err, st)
      | None \<Rightarrow> (Returned (), st\<lparr>bounties_json := Some (object_of (bountyData st))\<rparr>))"

subsection \<open>POST /init-escrow\<close>

definition init_escrow_try :: "'w engine \<Rightarrow> env \<Rightarrow> string \<Rightarrow> 'w server \<Rightarrow> (string + response) \<times> 'w server" where
  "init_escrow_try eng env bounty_id st0 =
     (let st1 = console_log [Txt (''[Guardian] Init escrow: '' @ bounty_id)] st0;
          wallet = next_wallet st1;
          st2 = st1\<lparr>heap := (heap st1)(wallet := new_WasmWallet eng), next_wallet := Suc wallet\<rparr>
      in case call wallet (\<lambda>w. create_random eng w (NETWORK env) ''English'' (entropy env)) st2 of
           (Threw err, st3) \<Rightarrow> (Inl err, st3)
         | (Returned u, st3) \<Rightarrow>
        (case call wallet (enable_multisig_experimental eng) st3 of
           (Threw err, st4) \<Rightarrow> (Inl err, st4)
         | (Returned u', st4) \<Rightarrow>
        (case call wallet (prepare_multisig eng) st4 of
           (Threw err, st5) \<Rightarrow> (Inl err, st5)
         | (Returned prepResult, st5) \<Rightarrow>
             if \<not> r_success prepResult then
               (Inl (''Failed to prepare multisig: '' @ r_error prepResult), wallet_delete wallet st5)
             else
               (Inr (200, [(''success'', JBool True),
                           (''bounty_id'', JStr bounty_id),
                           (''guardian_round1'', JStr (r_multisig_info prepResult))]),
                st5\<lparr>pendingEscrows :=
                      AList.update bounty_id
                        \<lparr>p_wallet = wallet,
                         p_guardian_round1 = r_multisig_info prepResult,
                         p_created_at = Date_now env\<rparr>
                        (pendingEscrows st5)\<rparr>))))"

definition init_escrow :: "'w engine \<Rightarrow> env \<Rightarrow> 'w server \<Rightarrow> string option \<Rightarrow> response \<times> 'w server" where
  "init_escrow eng env st bounty_id =
     (if \<not> isInitialized st then (not_initialized, st)
      else if \<not> truthy_string bounty_id then
        ((400, [(''error'', JStr ''Missing required field: bounty_id'')]), st)
      else if has (bountyData st) (the bounty_id) then
        ((409, [(''error'', JStr ''Bounty already finalized'')]), st)
      else
        let st' = (case map_of (pendingEscrows st) (the bounty_id) of
                     None \<Rightarrow> st
                   | Some old \<Rightarrow>
                       (wallet_delete (p_wallet old) st)
                         \<lparr>pendingEscrows := AList.delete (the bounty_id) (pendingEscrows st)\<rparr>)
        in try_catch ''[Guardian] Init escrow error:'' (init_escrow_try eng env (the bounty_id) st'))"

subsection \<open>POST /finalize-escrow\<close>

definition finalize_escrow_try ::
  "'w engine \<Rightarrow> env \<Rightarrow> string \<Rightarrow> int \<Rightarrow> string \<Rightarrow> string \<Rightarrow> string \<Rightarrow> string \<Rightarrow>
   pending_escrow \<Rightarrow> 'w server \<Rightarrow> (string + response) \<times> 'w server" where
  "finalize_escrow_try eng env bounty_id deadline_block server_round1 server_round2
       worker_round1 worker_round2 pending st0 =
     (let st1 = console_log [Txt (''[Guardian] Finalize escrow: '' @ bounty_id)] st0;
          wallet = p_wallet pending;
          guardian_round1 = p_guardian_round1 pending;
          allRound1 = [guardian_round1, server_round1, worker_round1]
      in (case call wallet (\<lambda>w. make_multisig eng w [] 2 allRound1) st1 of
            (Threw err, st2) \<Rightarrow> (Inl err, st2)
          | (Returned makeResult, st2) \<Rightarrow>
              (if \<not> r_success makeResult then
                 (Inl (''Failed to make multisig: '' @ r_error makeResult), st2)
               else
                 (let guardian_round2 = r_multisig_info makeResult;
                      allRound2 = [guardian_round2, server_round2, worker_round2]
                  in (case call wallet (\<lambda>w. exchange_multisig_keys eng w [] allRound2) st2 of
                        (Threw err, st3) \<Rightarrow> (Inl err, st3)
                      | (Returned kexResult, st3) \<Rightarrow>
                          (if \<not> r_success kexResult then
                             (Inl (''Failed to exchange keys: '' @ r_error kexResult), st3)
                           else
                             (let multisig_address = r_address kexResult;
                                  st4 = console_log [Txt (''[Guardian] Escrow finalized: '' @ multisig_address)] st3;
                                  st5 = st4\<lparr>pendingEscrows := AList.delete bounty_id (pendingEscrows st4)\<rparr>
                              in (case call wallet (\<lambda>w. get_seed eng w []) st5 of
                                    (Threw err, st6) \<Rightarrow> (Inl err, st6)
                                  | (Returned seed, st6) \<Rightarrow>
                                      (let bountyInfo =
                                             \<lparr>b_bounty_id = bounty_id,
                                              b_deadline_block = deadline_block,
                                              b_multisig_address = multisig_address,
                                              b_is_ready = r_is_ready kexResult,
                                              b_created_at = toISOString env,
                                              b_wallet_mnemonic = seed\<rparr>;
                                           st7 = st6\<lparr>bountyData := AList.update bounty_id bountyInfo (bountyData st6)\<rparr>
                                       in (case saveBountyState env st7 of
                                             (Threw err, st8) \<Rightarrow> (Inl err, st8)
                                           | (Returned u, st8) \<Rightarrow>
                                               (Inr (200, [(''success'', JBool True),
                                                           (''bounty_id'', JStr bounty_id),
                                                           (''guardian_round1'', JStr guardian_round1),
                                                           (''guardian_round2'', JStr guardian_round2),
                                                           (''multisig_address'', JStr multisig_address),
                                                           (''is_ready'', JBool (r_is_ready kexResult))]),
                                                st8\<lparr>activeWallets :=
                                                      AList.update bounty_id wallet (activeWallets st8)\<rparr>)))))))))))"

definition finalize_missing_fields :: response where
  "finalize_missing_fields =
     (400, [(''error'', JStr ''Missing required fields: bounty_id, deadline_block, server_round1, server_round2, worker_round1, worker_round2'')])"

definition pending_not_found :: response where
  "pending_not_found =
     (404, [(''error'', JStr ''Pending escrow not found. Call /init-escrow first.''),
            (''hint'', JStr ''The escrow may have expired (5 min timeout) or server restarted.'')])"

definition finalize_escrow ::
  "'w engine \<Rightarrow> env \<Rightarrow> 'w server \<Rightarrow> string option \<Rightarrow> int option \<Rightarrow> string option \<Rightarrow>
   string option \<Rightarrow> string option \<Rightarrow> string option \<Rightarrow> response \<times> 'w server" where
  "finalize_escrow eng env st bounty_id deadline_block server_round1 server_round2
       worker_round1 worker_round2 =
     (if \<not> isInitialized st then (not_initialized, st)
      else if \<not> truthy_string bounty_id \<or> \<not> truthy_number deadline_block
              \<or> \<not> truthy_string server_round1 \<or> \<not> truthy_string server_round2
              \<or> \<not> truthy_string worker_round1 \<or> \<not> truthy_string worker_round2 then
        (finalize_missing_fields, st)
      else
        case map_of (pendingEscrows st) (the bounty_id) of
          None \<Rightarrow> (pending_not_found, st)
        | Some pending \<Rightarrow>
            try_catch ''[Guardian] Finalize escrow error:''
              (finalize_escrow_try eng env (the bounty_id) (the deadline_block)
                 (the server_round1) (the server_round2) (the worker_round1) (the worker_round2)
                 pending st))"

subsection \<open>The transaction steps shared in shape by refund and payout\<close>

definition wallet_not_in_memory :: "string \<Rightarrow> response" where
  "wallet_not_in_memory bounty_id =
     (400, [(''error'', JStr ''Wallet not in memory. Use CLI for manual recovery.''),
            (''hint'', JStr (''docker exec salvium-guardian node cli.js export-bounty-seed '' @ bounty_id))])"

definition bounty_not_found :: response where
  "bounty_not_found = (404, [(''error'', JStr ''Bounty not found'')])"

text \<open>
  \<open>if (typeof wallet.describe_multisig_tx_hex === 'function') { ... console.log(label, descResult) }\<close>:
  skipped when the engine has no such method; a throw leaves the \<open>try\<close> block.
\<close>

definition describe_tx :: "'w engine \<Rightarrow> string \<Rightarrow> nat \<Rightarrow> string \<Rightarrow> 'w server \<Rightarrow> unit outcome \<times> 'w server" where
  "describe_tx eng label wallet tx_data_hex st =
     (case describe_multisig_tx_hex eng of
        None \<Rightarrow> (Returned (), st)
      | Some describe \<Rightarrow>
          (case call wallet (\<lambda>w. describe w tx_data_hex) st of
             (Threw err, st') \<Rightarrow> (Threw err, st')
           | (Returned descResult, st') \<Rightarrow>
               (Returned (), console_log [Txt label, Val descResult] st')))"

definition signed_response :: "string \<Rightarrow> wasm_result \<Rightarrow> response" where
  "signed_response bounty_id signResult =
     (200, [(''success'', JBool True),
            (''bounty_id'', JStr bounty_id),
            (''tx_data_hex'', JStr (r_tx_data_hex signResult)),
            (''signers'', JArr (map JStr (r_signers signResult))),
            (''ready'', JBool (r_ready signResult))])"

subsection \<open>POST /sync-outputs\<close>

definition sync_outputs_try ::
  "'w engine \<Rightarrow> string \<Rightarrow> json option \<Rightarrow> 'w server \<Rightarrow> (string + response) \<times> 'w server" where
  "sync_outputs_try eng bounty_id other_multisig_info st0 =
     (case map_of (activeWallets st0) bounty_id of
        None \<Rightarrow> (Inr (wallet_not_in_memory bounty_id), st0)
      | Some wallet \<Rightarrow>
          (case call wallet (export_multisig_info eng) st0 of
             (Threw err, st1) \<Rightarrow> (Inl err, st1)
           | (Returned exportResult, st1) \<Rightarrow>
               if \<not> r_success exportResult then
                 (Inl (''Failed to export multisig info: '' @ r_error exportResult), st1)
               else
                 let guardian_multisig_info = r_info exportResult;
                     sent = (200, [(''success'', JBool True),
                                   (''bounty_id'', JStr bounty_id),
                                   (''guardian_multisig_info'', JStr guardian_multisig_info)])
                 in if truthy other_multisig_info \<and> isArray other_multisig_info then
                      (case call wallet (\<lambda>w. import_multisig_info eng w (elements other_multisig_info)) st1 of
                         (Threw err, st2) \<Rightarrow> (Inl err, st2)
                       | (Returned importResult, st2) \<Rightarrow>
                           if \<not> r_success importResult then
                             (Inr sent,
                              console_log [Txt ''[Guardian] Import multisig info warning:'',
                                           Txt (r_error importResult)] st2)
                           else
                             (Inr sent,
                              console_log [Txt ''[Guardian] Imported '', Num (r_n_outputs importResult),
                                           Txt ('' outputs for bounty '' @ bounty_id)] st2))
                    else (Inr sent, st1)))"

definition sync_outputs ::
  "'w engine \<Rightarrow> 'w server \<Rightarrow> string option \<Rightarrow> json option \<Rightarrow> response \<times> 'w server" where
  "sync_outputs eng st bounty_id other_multisig_info =
     (if \<not> isInitialized st then (not_initialized, st)
      else if \<not> truthy_string bounty_id then
        ((400, [(''error'', JStr ''Missing required field: bounty_id'')]), st)
      else
        case map_of (bountyData st) (the bounty_id) of
          None \<Rightarrow> (bounty_not_found, st)
        | Some bountyInfo \<Rightarrow>
            try_catch ''[Guardian] Sync outputs error:''
              (sync_outputs_try eng (the bounty_id) other_multisig_info st))"

subsection \<open>POST /sign-refund\<close>

text \<open>The part of the \<open>try\<close> block after the wallet was found in \<open>activeWallets\<close>.\<close>

definition sign_refund_engine ::
  "'w engine \<Rightarrow> string \<Rightarrow> string \<Rightarrow> nat \<Rightarrow> 'w server \<Rightarrow> (string + response) \<times> 'w server" where
  "sign_refund_engine eng bounty_id tx_data_hex wallet st0 =
     (case describe_tx eng (''[Guardian] Refund tx for bounty '' @ bounty_id @ '':'') wallet tx_data_hex st0 of
        (Threw err, st1) \<Rightarrow> (Inl err, st1)
      | (Returned u, st1) \<Rightarrow>
          (case sign_multisig_tx_hex eng of
             None \<Rightarrow>
               (Inr (501, [(''error'', JStr ''sign_multisig_tx_hex not available in WASM''),
                           (''hint'', JStr ''Update WASM to version with multisig transaction support'')]),
                st1)
           | Some sign \<Rightarrow>
               (case call wallet (\<lambda>w. sign w tx_data_hex) st1 of
                  (Threw err, st2) \<Rightarrow> (Inl err, st2)
                | (Returned signResult, st2) \<Rightarrow>
                    if \<not> r_success signResult then
                      (Inl (''Failed to sign refund: '' @ r_error signResult), st2)
                    else
                      (Inr (signed_response bounty_id signResult),
                       console_log [Txt (''[Guardian] Signed refund for bounty '' @ bounty_id @ '', ready: ''),
                                    Flag (r_ready signResult)] st2))))"

definition sign_refund_try ::
  "'w engine \<Rightarrow> string \<Rightarrow> string \<Rightarrow> 'w server \<Rightarrow> (string + response) \<times> 'w server" where
  "sign_refund_try eng bounty_id tx_data_hex st0 =
     (case map_of (activeWallets st0) bounty_id of
        None \<Rightarrow> (Inr (wallet_not_in_memory bounty_id), st0)
      | Some wallet \<Rightarrow> sign_refund_engine eng bounty_id tx_data_hex wallet st0)"

definition deadline_not_reached :: "int \<Rightarrow> int \<Rightarrow> response" where
  "deadline_not_reached current_block deadline =
     (403, [(''error'', JStr ''Deadline not reached''),
            (''current_block'', JNum current_block),
            (''deadline_block'', JNum deadline),
            (''blocks_remaining'', json_number (double_minus deadline current_block))])"

definition sign_refund ::
  "'w engine \<Rightarrow> 'w server \<Rightarrow> string option \<Rightarrow> int option \<Rightarrow> string option \<Rightarrow> response \<times> 'w server" where
  "sign_refund eng st bounty_id current_block tx_data_hex =
     (if \<not> isInitialized st then (not_initialized, st)
      else if \<not> truthy_string bounty_id \<or> current_block = None \<or> \<not> truthy_string tx_data_hex then
        ((400, [(''error'', JStr ''Missing required fields: bounty_id, current_block, tx_data_hex'')]), st)
      else
        case map_of (bountyData st) (the bounty_id) of
          None \<Rightarrow> (bounty_not_found, st)
        | Some bountyInfo \<Rightarrow>
            if the current_block < b_deadline_block bountyInfo then
              (deadline_not_reached (the current_block) (b_deadline_block bountyInfo), st)
            else
              try_catch ''[Guardian] Sign refund error:''
                (sign_refund_try eng (the bounty_id) (the tx_data_hex) st))"

subsection \<open>POST /sign-payout\<close>

definition sign_payout_try ::
  "'w engine \<Rightarrow> string \<Rightarrow> string \<Rightarrow> string option \<Rightarrow> 'w server \<Rightarrow> (string + response) \<times> 'w server" where
  "sign_payout_try eng bounty_id tx_data_hex reason st0 =
     (case map_of (activeWallets st0) bounty_id of
        None \<Rightarrow> (Inr (wallet_not_in_memory bounty_id), st0)
      | Some wallet \<Rightarrow>
          (let st1 = console_log
                       [Txt (''[Guardian] Payout request for bounty '' @ bounty_id @ '', reason: ''
                             @ (if truthy_string reason then the reason else ''none provided''))] st0
           in (case describe_tx eng ''[Guardian] Payout tx details:'' wallet tx_data_hex st1 of
                 (Threw err, st2) \<Rightarrow> (Inl err, st2)
               | (Returned u, st2) \<Rightarrow>
                   (case sign_multisig_tx_hex eng of
                      None \<Rightarrow>
                        (Inr (501, [(''error'', JStr ''sign_multisig_tx_hex not available in WASM'')]), st2)
                    | Some sign \<Rightarrow>
                        (case call wallet (\<lambda>w. sign w tx_data_hex) st2 of
                           (Threw err, st3) \<Rightarrow> (Inl err, st3)
                         | (Returned signResult, st3) \<Rightarrow>
                             (if \<not> r_success signResult then
                                (Inl (''Failed to sign payout: '' @ r_error signResult), st3)
                              else
                                (Inr (signed_response bounty_id signResult),
                                 console_log [Txt (''[Guardian] Signed payout for bounty '' @ bounty_id @ '', ready: ''),
                                              Flag (r_ready signResult)] st3)))))))"

definition sign_payout ::
  "'w engine \<Rightarrow> 'w server \<Rightarrow> string option \<Rightarrow> string option \<Rightarrow> string option \<Rightarrow> response \<times> 'w server" where
  "sign_payout eng st bounty_id tx_data_hex reason =
     (if \<not> isInitialized st then (not_initialized, st)
      else if \<not> truthy_string bounty_id \<or> \<not> truthy_string tx_data_hex then
        ((400, [(''error'', JStr ''Missing required fields: bounty_id, tx_data_hex'')]), st)
      else
        case map_of (bountyData st) (the bounty_id) of
          None \<Rightarrow> (bounty_not_found, st)
        | Some bountyInfo \<Rightarrow>
            try_catch ''[Guardian] Sign payout error:''
              (sign_payout_try eng (the bounty_id) (the tx_data_hex) reason st))"

subsection \<open>GET /health, GET /bounty/:id, GET /bounties\<close>

definition health :: "'w server \<Rightarrow> response" where
  "health st =
     (200, [(''status'', JStr ''ok''),
            (''initialized'', JBool (isInitialized st)),
            (''pendingEscrows'', JNum (size_of (pendingEscrows st))),
            (''completedBounties'', JNum (size_of (bountyData st)))])"

definition get_bounty :: "'w server \<Rightarrow> string \<Rightarrow> response" where
  "get_bounty st id' =
     (case map_of (bountyData st) id' of
        None \<Rightarrow>
          if has (pendingEscrows st) id' then
            (200, [(''bounty_id'', JStr id'),
                   (''status'', JStr ''pending''),
                   (''message'', JStr ''Waiting for /finalize-escrow'')])
          else bounty_not_found
      | Some bountyInfo \<Rightarrow>
          (200, [(''bounty_id'', JStr (b_bounty_id bountyInfo)),
                 (''deadline_block'', JNum (b_deadline_block bountyInfo)),
                 (''multisig_address'', JStr (b_multisig_address bountyInfo)),
                 (''is_ready'', JBool (b_is_ready bountyInfo)),
                 (''created_at'', JStr (b_created_at bountyInfo)),
                 (''wallet_in_memory'', JBool (has (activeWallets st) id'))]))"

definition bounty_summary :: "string \<times> bounty_info \<Rightarrow> json" where
  "bounty_summary entry =
     (case entry of (id', info) \<Rightarrow>
        JObj [(''bounty_id'', JStr id'),
              (''deadline_block'', JNum (b_deadline_block info)),
              (''multisig_address'', JStr (b_multisig_address info)),
              (''is_ready'', JBool (b_is_ready info)),
              (''created_at'', JStr (b_created_at info))])"

definition get_bounties :: "'w server \<Rightarrow> response" where
  "get_bounties st =
     (let bounties = map bounty_summary (bountyData st)
      in (200, [(''pending'', JNum (size_of (pendingEscrows st))),
                (''completed'', JNum (int (length bounties))),
                (''bounties'', JArr bounties)]))"

subsection \<open>The cleanup sweeper\<close>

definition TTL_MS :: int where
  "TTL_MS = 5 * 60 * 1000"

definition SWEEP_PERIOD_MS :: int where
  "SWEEP_PERIOD_MS = 60 * 1000"

definition stale :: "int \<Rightarrow> pending_escrow \<Rightarrow> bool" where
  "stale now escrow = (now - p_created_at escrow > TTL_MS)"

text \<open>
  The body of the timer callback: the \<open>for ... of\<close> loop visits the entries of the map in
  order; deleting the entry being visited does not disturb the visit of the later ones.
\<close>

fun cleanup_loop :: "int \<Rightarrow> (string \<times> pending_escrow) list \<Rightarrow> 'w server \<Rightarrow> 'w server" where
  "cleanup_loop now [] st = st"
| "cleanup_loop now ((id', escrow) # rest) st =
     cleanup_loop now rest
       (if stale now escrow then
          (wallet_delete (p_wallet escrow)
             (console_log [Txt (''[Guardian] Cleaning up stale pending escrow: '' @ id')] st))
            \<lparr>pendingEscrows := AList.delete id' (pendingEscrows st)\<rparr>
        else st)"

definition cleanup :: "int \<Rightarrow> 'w server \<Rightarrow> 'w server" where
  "cleanup now st = cleanup_loop now (pendingEscrows st) st"

subsection \<open>Startup and runs of the server\<close>

text \<open>
  \<open>main\<close>: the maps start empty, \<open>loadBountyState\<close> reads \<open>bounties.json\<close> when it exists
  (\<open>None\<close>: no file; else the list \<open>Object.entries\<close> gives for the parsed object), and only
  then the server is marked initialized and listens.
\<close>

definition loadBountyState :: "(string \<times> bounty_info) list option \<Rightarrow> 'w server \<Rightarrow> 'w server" where
  "loadBountyState file st =
     (case file of
        None \<Rightarrow> st
      | Some entries \<Rightarrow>
          (let st' = st\<lparr>bountyData := fold (\<lambda>(id', info). AList.update id' info) entries (bountyData st)\<rparr>
           in console_log [Txt ''[Guardian] Loaded '', Num (size_of (bountyData st')), Txt '' bounties''] st'))"

definition main :: "'w engine \<Rightarrow> (string \<times> bounty_info) list option \<Rightarrow> 'w server" where
  "main eng file =
     (loadBountyState file
        \<lparr>isInitialized = False, pendingEscrows = [], bountyData = [], activeWallets = [],
         heap = (\<lambda>h. new_WasmWallet eng), next_wallet = 0, deleted = [],
         console = [Txt ''[Guardian] Loading WASM module...''] # [[Txt ''[Guardian] WASM module loaded'']],
         bounties_json = map_option map_of file\<rparr>)
       \<lparr>isInitialized := True\<rparr>"

datatype request =
    Health
  | Init_escrow "string option"
  | Finalize_escrow "string option" "int option" "string option" "string option" "string option" "string option"
  | Sync_outputs "string option" "json option"
  | Sign_refund "string option" "int option" "string option"
  | Sign_payout "string option" "string option" "string option"
  | Get_bounty string
  | Get_bounties

fun handle :: "'w engine \<Rightarrow> env \<Rightarrow> 'w server \<Rightarrow> request \<Rightarrow> response \<times> 'w server" where
  "handle eng env st Health = (health st, st)"
| "handle eng env st (Init_escrow bounty_id) = init_escrow eng env st bounty_id"
| "handle eng env st (Finalize_escrow bounty_id deadline_block server_round1 server_round2 worker_round1 worker_round2) =
     finalize_escrow eng env st bounty_id deadline_block server_round1 server_round2 worker_round1 worker_round2"
| "handle eng env st (Sync_outputs bounty_id other_multisig_info) =
     sync_outputs eng st bounty_id other_multisig_info"
| "handle eng env st (Sign_refund bounty_id current_block tx_data_hex) =
     sign_refund eng st bounty_id current_block tx_data_hex"
| "handle eng env st (Sign_payout bounty_id tx_data_hex reason) =
     sign_payout eng st bounty_id tx_data_hex reason"
| "handle eng env st (Get_bounty id') = (get_bounty st id', st)"
| "handle eng env st Get_bounties = (get_bounties st, st)"

text \<open>An event of a run: a request arriving, or the sweeper's timer firing.\<close>

datatype event = Request env request | Sweep int

fun step :: "'w engine \<Rightarrow> 'w server \<Rightarrow> event \<Rightarrow> 'w server" where
  "step eng st (Request env rq) = snd (handle eng env st rq)"
| "step eng st (Sweep now) = cleanup now st"

fun run :: "'w engine \<Rightarrow> 'w server \<Rightarrow> event list \<Rightarrow> 'w server" where
  "run eng st [] = st"
| "run eng st (ev # evs) = run eng (step eng st ev) evs"

subsection \<open>Notions used to state the properties\<close>


text \<open>An id that is in the pending table and in the bounty registry at once.\<close>

definition in_both :: "'w server \<Rightarrow> string \<Rightarrow> bool" where
  "in_both st k = (has (pendingEscrows st) k \<and> has (bountyData st) k)"

text \<open>
  The recovery seed is the field \<open>wallet_mnemonic\<close> of a bounty record. \<open>public\<close> blanks it in
  every stored record, in memory and on disk; two states are the same but for seeds when
  their public parts are equal. \<open>reseed f\<close> is the engine that exports \<open>f seed\<close> wherever the
  given engine exports \<open>seed\<close>, and is the same engine otherwise. \<open>responses\<close> lists what a
  client receives over a run.
\<close>

definition redact :: "bounty_info \<Rightarrow> bounty_info" where
  "redact info = info\<lparr>b_wallet_mnemonic := []\<rparr>"

definition redact_all :: "(string \<times> bounty_info) list \<Rightarrow> (string \<times> bounty_info) list" where
  "redact_all al = map (\<lambda>(k, info). (k, redact info)) al"

definition redact_object :: "(string \<Rightarrow> bounty_info option) \<Rightarrow> (string \<Rightarrow> bounty_info option)" where
  "redact_object data = (\<lambda>k. map_option redact (data k))"

definition public :: "'w server \<Rightarrow> 'w server" where
  "public st = st\<lparr>bountyData := redact_all (bountyData st),
                   bounties_json := map_option redact_object (bounties_json st)\<rparr>"

definition same_but_seeds :: "'w server \<Rightarrow> 'w server \<Rightarrow> bool" where
  "same_but_seeds st st' = (public st = public st')"

definition reseed :: "(string \<Rightarrow> string) \<Rightarrow> 'w engine \<Rightarrow> 'w engine" where
  "reseed f eng =
     eng\<lparr>get_seed := (\<lambda>w password.
            case get_seed eng w password of
              (Threw err, w') \<Rightarrow> (Threw err, w')
            | (Returned seed, w') \<Rightarrow> (Returned (f seed), w'))\<rparr>"

fun responses :: "'w engine \<Rightarrow> 'w server \<Rightarrow> event list \<Rightarrow> response list" where
  "responses eng st [] = []"
| "responses eng st (Request env rq # evs) =
     fst (handle eng env st rq) # responses eng (snd (handle eng env st rq)) evs"
| "responses eng st (Sweep now # evs) = responses eng (cleanup now st) evs"

text \<open>
  What a \<open>Map\<close> of pending sessions looks like: keys are distinct, and the wallets, each
  created by its own \<open>new WasmWallet()\<close>, are distinct handles below the next free one.
\<close>

definition wf_table :: "(string \<times> pending_escrow) list \<Rightarrow> nat \<Rightarrow> bool" where
  "wf_table al n = (distinct (map fst al)
                    \<and> distinct (map (\<lambda>entry. p_wallet (snd entry)) al)
                    \<and> list_all (\<lambda>entry. p_wallet (snd entry) < n) al)"

definition well_formed :: "'w server \<Rightarrow> bool" where
  "well_formed st = wf_table (pendingEscrows st) (next_wallet st)"

section \<open>A canned engine and example runs\<close>

text \<open>
  A deterministic stand-in for the wallet engine, used to run the server on concrete
  requests. A wallet's state is a counter; round 1 fails on no input, round 2 reports a
  failure and key exchange throws when a payload is \<open>bad\<close>, an import of nothing fails.
\<close>

definition succeeded :: wasm_result where
  "succeeded = \<lparr>r_success = True, r_error = [], r_multisig_info = [], r_address = [],
                 r_is_ready = False, r_info = [], r_n_outputs = 0, r_tx_data_hex = [],
                 r_signers = [], r_ready = False\<rparr>"

definition failed :: "string \<Rightarrow> wasm_result" where
  "failed err = succeeded\<lparr>r_success := False, r_error := err\<rparr>"

definition canned_engine :: "nat engine" where
  "canned_engine =
     \<lparr>new_WasmWallet = 0,
      create_random = (\<lambda>w network language drawn. (Returned (), drawn)),
      enable_multisig_experimental = (\<lambda>w. (Returned (), w)),
      prepare_multisig = (\<lambda>w. (Returned (succeeded\<lparr>r_multisig_info := ''g1-'' @ replicate w CHR ''i''\<rparr>), w)),
      make_multisig = (\<lambda>w password threshold infos.
         if ''bad'' \<in> set infos then (Returned (failed ''bad round 1''), w)
         else (Returned (succeeded\<lparr>r_multisig_info := ''g2-'' @ concat infos\<rparr>), Suc w)),
      exchange_multisig_keys = (\<lambda>w password infos.
         if ''bad'' \<in> set infos then (Threw ''kex aborted'', w)
         else (Returned (succeeded\<lparr>r_address := concat infos, r_is_ready := True\<rparr>), Suc w)),
      get_seed = (\<lambda>w password. (Returned (''seed-'' @ replicate w CHR ''i''), w)),
      export_multisig_info = (\<lambda>w. (Returned (succeeded\<lparr>r_info := ''outputs''\<rparr>), w)),
      import_multisig_info = (\<lambda>w infos.
         if infos = [] then (Returned (failed ''nothing to import''), w)
         else (Returned (succeeded\<lparr>r_n_outputs := int (length infos)\<rparr>), w)),
      describe_multisig_tx_hex = Some (\<lambda>w tx. (Returned (JStr tx), w)),
      sign_multisig_tx_hex = Some (\<lambda>w tx.
         (Returned (succeeded\<lparr>r_tx_data_hex := tx @ ''-signed'', r_signers := [''guardian'']\<rparr>), w))\<rparr>"

definition at :: "int \<Rightarrow> env" where
  "at now = \<lparr>Date_now = now, toISOString = ''2026-01-01T00:00:00.000Z'', entropy = 1,
             NETWORK = ''mainnet'', writeFileSync_error = None\<rparr>"

text \<open>The server after \<open>begin\<close> for \<open>b1\<close>, and after the \<open>finalize\<close> that follows it.\<close>

definition b1_pending :: "nat server" where
  "b1_pending = run canned_engine (main canned_engine None) [Request (at 0) (Init_escrow (Some ''b1''))]"

definition b1_finalized :: "nat server" where
  "b1_finalized = step canned_engine b1_pending
       (Request (at 1000) (Finalize_escrow (Some ''b1'') (Some 1000000)
          (Some ''s1'') (Some ''s2'') (Some ''w1'') (Some ''w2'')))"

text \<open>Two sessions begun 200 seconds apart, both still pending.\<close>

definition two_pending :: "nat server" where
  "two_pending = run canned_engine (main canned_engine None)
     [Request (at 0) (Init_escrow (Some ''b1'')),
      Request ((at 200000) \<lparr>entropy := 2\<rparr>) (Init_escrow (Some ''b2''))]"

text \<open>
  The finalized example server holding another seed for \<open>b1\<close>, and a session of requests.
\<close>

definition b1_other_seed :: "nat server" where
  "b1_other_seed =
     b1_finalized\<lparr>bountyData := map (\<lambda>(k, info). (k, info\<lparr>b_wallet_mnemonic := ''other words''\<rparr>))
                                   (bountyData b1_finalized),
                  bounties_json := map_option
                                     (\<lambda>data k. map_option (\<lambda>info. info\<lparr>b_wallet_mnemonic := ''other words''\<rparr>) (data k))
                                     (bounties_json b1_finalized)\<rparr>"

definition session :: "event list" where
  "session =
     [Request (at 2000) (Get_bounty ''b1''),
      Request (at 2000) Get_bounties,
      Request (at 2000) (Init_escrow (Some ''b2'')),
      Request (at 3000) (Finalize_escrow (Some ''b2'') (Some 50) (Some ''s1'') (Some ''s2'')
                           (Some ''w1'') (Some ''w2'')),
      Request (at 4000) (Get_bounty ''b2''),
      Request (at 4000) (Sign_refund (Some ''b2'') (Some 60) (Some ''aa'')),
      Sweep 400000,
      Request (at 400000) Health]"

text \<open>
  Two engines that differ from the canned one: one whose import throws, and one without the
  two optional transaction methods. And the example server finalized with the largest
  deadline below \<open>2^53\<close>.
\<close>

definition import_throws :: "nat engine" where
  "import_throws = canned_engine\<lparr>import_multisig_info := (\<lambda>w infos. (Threw ''import exploded'', w))\<rparr>"



section \<open>Properties\<close>

subsection \<open>The example runs, evaluated\<close>

lemmas handler_defs =
  init_escrow_def init_escrow_try_def finalize_escrow_def finalize_escrow_try_def
  try_catch_def call_def console_log_def wallet_delete_def saveBountyState_def has_def
  truthy_string_def truthy_number_def not_initialized_def main_def loadBountyState_def Let_def

lemmas canned_defs = canned_engine_def at_def succeeded_def failed_def

lemma b1_pending_eval:
  "pendingEscrows b1_pending
     = [(''b1'', \<lparr>p_wallet = 0, p_guardian_round1 = ''g1-i'', p_created_at = 0\<rparr>)]"
  "bountyData b1_pending = []"
  "activeWallets b1_pending = []"
  "isInitialized b1_pending"
  "heap b1_pending 0 = 1"
  "next_wallet b1_pending = 1"
  "deleted b1_pending = []"
  by (simp_all add: b1_pending_def handler_defs canned_defs)

lemma b1_finalized_eval:
  "pendingEscrows b1_finalized = []"
  "bountyData b1_finalized
     = [(''b1'', \<lparr>b_bounty_id = ''b1'', b_deadline_block = 1000000,
                  b_multisig_address = ''g2-g1-is1w1s2w2'', b_is_ready = True,
                  b_created_at = ''2026-01-01T00:00:00.000Z'',
                  b_wallet_mnemonic = ''seed-iii''\<rparr>)]"
  "activeWallets b1_finalized = [(''b1'', 0)]"
  "isInitialized b1_finalized"
  "heap b1_finalized 0 = 3"
  by (simp_all add: b1_finalized_def b1_pending_def handler_defs canned_defs)

subsection \<open>Required-field validation of finalize\<close>

text \<open>
  C10. On an initialized server, a finalize request whose \<open>deadline_block\<close> is the number
  \<open>0\<close>, or one of whose four round payloads is the empty string, is answered with status
  400 and the missing-fields error, whatever the other fields are, and the state is left as
  it was: the check \<open>!deadline_block\<close> tests truthiness, and \<open>0\<close> and \<open>""\<close> are falsy.
\<close>

theorem finalize_escrow_falsy_field:
  assumes "isInitialized st"
    and "deadline_block = Some 0 \<or> server_round1 = Some [] \<or> server_round2 = Some []
         \<or> worker_round1 = Some [] \<or> worker_round2 = Some []"
  shows "finalize_escrow eng env st bounty_id deadline_block server_round1 server_round2
           worker_round1 worker_round2
         = ((400, [(''error'', JStr ''Missing required fields: bounty_id, deadline_block, server_round1, server_round2, worker_round1, worker_round2'')]), st)"
  using assms
  by (auto simp: finalize_escrow_def finalize_missing_fields_def truthy_string_def truthy_number_def)

text \<open>
  The request that finalizes \<open>b1\<close> in the example run, with the deadline replaced by \<open>0\<close>.
\<close>

theorem finalize_escrow_falsy_field_witness:
  "isInitialized b1_pending
   \<and> has (pendingEscrows b1_pending) ''b1''
   \<and> fst (fst (finalize_escrow canned_engine (at 1000) b1_pending (Some ''b1'') (Some 0)
                  (Some ''s1'') (Some ''s2'') (Some ''w1'') (Some ''w2''))) = 400
   \<and> snd (finalize_escrow canned_engine (at 1000) b1_pending (Some ''b1'') (Some 0)
                  (Some ''s1'') (Some ''s2'') (Some ''w1'') (Some ''w2'')) = b1_pending"
  using finalize_escrow_falsy_field [of b1_pending "Some 0" "Some ''s1''" "Some ''s2''"
          "Some ''w1''" "Some ''w2''" canned_engine "at 1000" "Some ''b1''"]
  by (simp add: b1_pending_eval has_def)

subsection \<open>The deadline gate of refund signing\<close>













subsection \<open>Finalize: ordered payloads, and failures that keep the session\<close>

lemma b1_finalize_eval:
  "finalize_escrow canned_engine (at 1000) b1_pending (Some ''b1'') (Some 1000000)
     (Some ''s1'') (Some ''s2'') (Some ''w1'') (Some ''w2'')
   = ((200, [(''success'', JBool True),
             (''bounty_id'', JStr ''b1''),
             (''guardian_round1'', JStr ''g1-i''),
             (''guardian_round2'', JStr ''g2-g1-is1w1''),
             (''multisig_address'', JStr ''g2-g1-is1w1s2w2''),
             (''is_ready'', JBool True)]), b1_finalized)"
  by (simp add: prod_eq_iff b1_finalized_def)
     (simp add: b1_pending_def handler_defs canned_defs)

text \<open>
  C2. Whenever finalize answers with success (status 200), a pending session existed for the
  id; the engine's round-2 method was applied to that session's wallet with threshold 2 and
  the list [own stored round-1 payload, server_round1, worker_round1], in this order, and
  reported success; its key exchange was applied to the wallet state left by round 2 with
  the list [own round-2 payload just computed, server_round2, worker_round2], in this order,
  and reported success; and the response carries the stored round-1 payload, that round-2
  payload, and the address and readiness flag returned by the key exchange.
\<close>

theorem finalize_escrow_success:
  assumes "finalize_escrow eng env st bounty_id deadline_block server_round1 server_round2
             worker_round1 worker_round2 = ((200, body), st')"
  shows "\<exists>pending makeResult w1 kexResult w2.
           map_of (pendingEscrows st) (the bounty_id) = Some pending
         \<and> make_multisig eng (heap st (p_wallet pending)) [] 2
             [p_guardian_round1 pending, the server_round1, the worker_round1] = (Returned makeResult, w1)
         \<and> r_success makeResult
         \<and> exchange_multisig_keys eng w1 []
             [r_multisig_info makeResult, the server_round2, the worker_round2] = (Returned kexResult, w2)
         \<and> r_success kexResult
         \<and> body = [(''success'', JBool True),
                    (''bounty_id'', JStr (the bounty_id)),
                    (''guardian_round1'', JStr (p_guardian_round1 pending)),
                    (''guardian_round2'', JStr (r_multisig_info makeResult)),
                    (''multisig_address'', JStr (r_address kexResult)),
                    (''is_ready'', JBool (r_is_ready kexResult))]"
  using assms
  by (auto simp: finalize_escrow_def finalize_escrow_try_def pending_not_found_def try_catch_def
        finalize_missing_fields_def not_initialized_def
        call_def console_log_def Let_def saveBountyState_def
      split: prod.splits outcome.splits if_splits option.splits)

text \<open>The finalize request of the example run and the two engine calls behind its answer.\<close>

theorem finalize_escrow_success_witness:
  "finalize_escrow canned_engine (at 1000) b1_pending (Some ''b1'') (Some 1000000)
     (Some ''s1'') (Some ''s2'') (Some ''w1'') (Some ''w2'')
   = ((200, [(''success'', JBool True),
             (''bounty_id'', JStr ''b1''),
             (''guardian_round1'', JStr ''g1-i''),
             (''guardian_round2'', JStr ''g2-g1-is1w1''),
             (''multisig_address'', JStr ''g2-g1-is1w1s2w2''),
             (''is_ready'', JBool True)]), b1_finalized)
   \<and> (\<exists>makeResult kexResult.
         make_multisig canned_engine 1 [] 2 [''g1-i'', ''s1'', ''w1''] = (Returned makeResult, 2)
       \<and> r_multisig_info makeResult = ''g2-g1-is1w1''
       \<and> exchange_multisig_keys canned_engine 2 [] [''g2-g1-is1w1'', ''s2'', ''w2''] = (Returned kexResult, 3)
       \<and> r_address kexResult = ''g2-g1-is1w1s2w2'' \<and> r_is_ready kexResult)"
proof -
  from finalize_escrow_success [OF b1_finalize_eval]
  have "\<exists>makeResult w1 kexResult w2.
          make_multisig canned_engine 1 [] 2 [''g1-i'', ''s1'', ''w1''] = (Returned makeResult, w1)
        \<and> exchange_multisig_keys canned_engine w1 [] [r_multisig_info makeResult, ''s2'', ''w2'']
            = (Returned kexResult, w2)
        \<and> r_multisig_info makeResult = ''g2-g1-is1w1''
        \<and> r_address kexResult = ''g2-g1-is1w1s2w2'' \<and> r_is_ready kexResult"
    by (auto simp: b1_pending_eval)
  then have "\<exists>makeResult kexResult.
         make_multisig canned_engine 1 [] 2 [''g1-i'', ''s1'', ''w1''] = (Returned makeResult, 2)
       \<and> r_multisig_info makeResult = ''g2-g1-is1w1''
       \<and> exchange_multisig_keys canned_engine 2 [] [''g2-g1-is1w1'', ''s2'', ''w2''] = (Returned kexResult, 3)
       \<and> r_address kexResult = ''g2-g1-is1w1s2w2'' \<and> r_is_ready kexResult"
    by (auto simp: canned_defs)
  with b1_finalize_eval show ?thesis by simp
qed



subsection \<open>Synchronizing outputs\<close>

text \<open>
  A failed import does not always leave the answer a success. The import call is inside the
  handler's \<open>try\<close>: when it throws, the throw reaches the \<open>catch\<close> block and the answer is 500,
  although the export before it succeeded and the same request without counterpart info is
  answered with success. Below, the engine's import throws on the finalized example bounty.
\<close>

theorem sync_outputs_import_throws_counterexample:
  "map_of (bountyData b1_finalized) ''b1'' \<noteq> None
   \<and> map_of (activeWallets b1_finalized) ''b1'' = Some 0
   \<and> fst (export_multisig_info import_throws (heap b1_finalized 0))
       = Returned (succeeded\<lparr>r_info := ''outputs''\<rparr>)
   \<and> r_success (succeeded\<lparr>r_info := ''outputs''\<rparr>)
   \<and> fst (import_multisig_info import_throws (heap b1_finalized 0) [JStr ''theirs''])
       = Threw ''import exploded''
   \<and> fst (sync_outputs import_throws b1_finalized (Some ''b1'') (Some (JArr [JStr ''theirs''])))
       = (500, [(''error'', JStr ''import exploded'')])
   \<and> fst (sync_outputs import_throws b1_finalized (Some ''b1'') None)
       = (200, [(''success'', JBool True), (''bounty_id'', JStr ''b1''),
                (''guardian_multisig_info'', JStr ''outputs'')])"
  by (simp add: sync_outputs_def sync_outputs_try_def try_catch_def call_def console_log_def Let_def
        b1_finalized_eval truthy_string_def import_throws_def canned_defs)

text \<open>
  C9 (amended). On an initialized server, for a finalized bounty whose wallet is resident:
  when the wallet's export succeeds and the import of the supplied array returns a result
  that reports failure (\<open>success\<close> false), the answer is still success with the wallet's own
  export payload, the same answer as without any counterpart info, and the failure is
  printed as a warning.
\<close>

theorem sync_outputs_import_failure:
  assumes "isInitialized st" and "truthy_string bounty_id"
    and "map_of (bountyData st) (the bounty_id) = Some bountyInfo"
    and "map_of (activeWallets st) (the bounty_id) = Some wallet"
    and "export_multisig_info eng (heap st wallet) = (Returned exportResult, w1)"
    and "r_success exportResult"
    and "other_multisig_info = Some (JArr infos)"
    and "import_multisig_info eng w1 infos = (Returned importResult, w2)"
    and "\<not> r_success importResult"
  shows "fst (sync_outputs eng st bounty_id other_multisig_info)
           = (200, [(''success'', JBool True),
                    (''bounty_id'', JStr (the bounty_id)),
                    (''guardian_multisig_info'', JStr (r_info exportResult))])
       \<and> console (snd (sync_outputs eng st bounty_id other_multisig_info))
           = console st @ [[Txt ''[Guardian] Import multisig info warning:'', Txt (r_error importResult)]]
       \<and> fst (sync_outputs eng st bounty_id other_multisig_info)
           = fst (sync_outputs eng st bounty_id None)"
  using assms
  by (simp add: sync_outputs_def sync_outputs_try_def try_catch_def call_def console_log_def Let_def)


text \<open>The canned engine refuses to import an empty array.\<close>

theorem sync_outputs_import_failure_witness:
  "isInitialized b1_finalized
   \<and> map_of (activeWallets b1_finalized) ''b1'' = Some 0
   \<and> import_multisig_info canned_engine 3 [] = (Returned (failed ''nothing to import''), 3)
   \<and> \<not> r_success (failed ''nothing to import'')
   \<and> fst (sync_outputs canned_engine b1_finalized (Some ''b1'') (Some (JArr [])))
       = (200, [(''success'', JBool True), (''bounty_id'', JStr ''b1''),
                (''guardian_multisig_info'', JStr ''outputs'')])
   \<and> console (snd (sync_outputs canned_engine b1_finalized (Some ''b1'') (Some (JArr []))))
       = console b1_finalized
           @ [[Txt ''[Guardian] Import multisig info warning:'', Txt ''nothing to import'']]"
  using sync_outputs_import_failure [of b1_finalized "Some ''b1''" _ 0 canned_engine
          "succeeded\<lparr>r_info := ''outputs''\<rparr>" 3 "Some (JArr [])" "[]" "failed ''nothing to import''" 3]
  by (simp add: b1_finalized_eval truthy_string_def canned_defs)

subsection \<open>Begin: conflict with a finalized bounty, replacement of a pending session\<close>

lemma update_fresh_key: "k \<notin> fst ` set al \<Longrightarrow> AList.update k v al = al @ [(k, v)]"
  by (induction al) auto

lemma update_after_delete: "AList.update k v (AList.delete k al) = AList.delete k al @ [(k, v)]"
  by (simp add: update_fresh_key AList.delete_notin_dom)

text \<open>
  A begin for \<open>b1\<close> while \<open>b1\<close> is in the pending table does not fail with Conflict: it is
  answered with success, a second wallet is created and the pending entry names it.
\<close>

theorem init_escrow_pending_counterexample:
  "has (pendingEscrows b1_pending) ''b1''
   \<and> fst (init_escrow canned_engine ((at 5) \<lparr>entropy := 2\<rparr>) b1_pending (Some ''b1''))
       = (200, [(''success'', JBool True), (''bounty_id'', JStr ''b1''),
                (''guardian_round1'', JStr ''g1-ii'')])
   \<and> fst (fst (init_escrow canned_engine ((at 5) \<lparr>entropy := 2\<rparr>) b1_pending (Some ''b1''))) \<noteq> 409
   \<and> next_wallet (snd (init_escrow canned_engine ((at 5) \<lparr>entropy := 2\<rparr>) b1_pending (Some ''b1'')))
       = Suc (next_wallet b1_pending)
   \<and> pendingEscrows (snd (init_escrow canned_engine ((at 5) \<lparr>entropy := 2\<rparr>) b1_pending (Some ''b1'')))
       = [(''b1'', \<lparr>p_wallet = 1, p_guardian_round1 = ''g1-ii'', p_created_at = 5\<rparr>)]"
  by (simp add: b1_pending_eval handler_defs canned_defs eval_nat_numeral)

text \<open>
  C4 (amended). On an initialized server, a begin whose id is present in the bounty registry
  is answered 409 "Bounty already finalized" and the state is exactly as before: no wallet
  is created and no pending session is added. (An id present only in the pending table is
  not refused; see C5.)
\<close>

theorem init_escrow_finalized_conflict:
  assumes "isInitialized st" and "truthy_string bounty_id"
    and "has (bountyData st) (the bounty_id)"
  shows "init_escrow eng env st bounty_id
         = ((409, [(''error'', JStr ''Bounty already finalized'')]), st)"
  using assms by (simp add: init_escrow_def)

theorem init_escrow_finalized_conflict_witness:
  "isInitialized b1_finalized \<and> truthy_string (Some ''b1'') \<and> has (bountyData b1_finalized) ''b1''
   \<and> init_escrow canned_engine (at 5) b1_finalized (Some ''b1'')
       = ((409, [(''error'', JStr ''Bounty already finalized'')]), b1_finalized)"
  using init_escrow_finalized_conflict [of b1_finalized "Some ''b1''" canned_engine "at 5"]
  by (simp add: b1_finalized_eval truthy_string_def has_def)

text \<open>
  C5. On an initialized server, for an id that is not finalized and has a pending session:
  when the engine creates the new wallet and its round 1 succeeds, begin answers success
  with the round-1 payload of the new wallet; \<open>delete()\<close> is called on the wallet of the old
  session (once, as the last release so far); the old entry is gone from the table and one
  new entry for the id, naming the newly allocated wallet, stands at its end. For an id
  that is finalized, begin answers 409 and changes nothing.
\<close>

theorem init_escrow_replaces_pending:
  assumes "isInitialized st" and "truthy_string bounty_id"
  shows "(map_of (bountyData st) (the bounty_id) = None
          \<and> map_of (pendingEscrows st) (the bounty_id) = Some old
          \<and> create_random eng (new_WasmWallet eng) (NETWORK env) ''English'' (entropy env) = (Returned u1, w1)
          \<and> enable_multisig_experimental eng w1 = (Returned u2, w2)
          \<and> prepare_multisig eng w2 = (Returned prepResult, w3)
          \<and> r_success prepResult \<longrightarrow>
            fst (init_escrow eng env st bounty_id)
              = (200, [(''success'', JBool True),
                       (''bounty_id'', JStr (the bounty_id)),
                       (''guardian_round1'', JStr (r_multisig_info prepResult))])
          \<and> deleted (snd (init_escrow eng env st bounty_id)) = deleted st @ [p_wallet old]
          \<and> pendingEscrows (snd (init_escrow eng env st bounty_id))
              = AList.delete (the bounty_id) (pendingEscrows st)
                @ [(the bounty_id, \<lparr>p_wallet = next_wallet st,
                                     p_guardian_round1 = r_multisig_info prepResult,
                                     p_created_at = Date_now env\<rparr>)]
          \<and> heap (snd (init_escrow eng env st bounty_id)) (next_wallet st) = w3
          \<and> next_wallet (snd (init_escrow eng env st bounty_id)) = Suc (next_wallet st))
       \<and> (map_of (bountyData st) (the bounty_id) \<noteq> None \<longrightarrow>
            init_escrow eng env st bounty_id
              = ((409, [(''error'', JStr ''Bounty already finalized'')]), st))"
  using assms
  by (auto simp: init_escrow_def has_def init_escrow_try_def try_catch_def call_def console_log_def
        wallet_delete_def Let_def update_after_delete)

text \<open>A second begin for \<open>b1\<close> on the example server, before and after finalize.\<close>

theorem init_escrow_replaces_pending_witness:
  "isInitialized b1_pending \<and> truthy_string (Some ''b1'')
   \<and> map_of (bountyData b1_pending) ''b1'' = None
   \<and> map_of (pendingEscrows b1_pending) ''b1''
       = Some \<lparr>p_wallet = 0, p_guardian_round1 = ''g1-i'', p_created_at = 0\<rparr>
   \<and> fst (init_escrow canned_engine ((at 5) \<lparr>entropy := 2\<rparr>) b1_pending (Some ''b1''))
       = (200, [(''success'', JBool True), (''bounty_id'', JStr ''b1''),
                (''guardian_round1'', JStr ''g1-ii'')])
   \<and> deleted (snd (init_escrow canned_engine ((at 5) \<lparr>entropy := 2\<rparr>) b1_pending (Some ''b1''))) = [0]
   \<and> pendingEscrows (snd (init_escrow canned_engine ((at 5) \<lparr>entropy := 2\<rparr>) b1_pending (Some ''b1'')))
       = [(''b1'', \<lparr>p_wallet = 1, p_guardian_round1 = ''g1-ii'', p_created_at = 5\<rparr>)]
   \<and> map_of (bountyData b1_finalized) ''b1'' \<noteq> None
   \<and> fst (fst (init_escrow canned_engine (at 5) b1_finalized (Some ''b1''))) = 409
   \<and> snd (init_escrow canned_engine (at 5) b1_finalized (Some ''b1'')) = b1_finalized"
  using init_escrow_replaces_pending [of b1_pending "Some ''b1''"
          "\<lparr>p_wallet = 0, p_guardian_round1 = ''g1-i'', p_created_at = 0\<rparr>" canned_engine
          "(at 5) \<lparr>entropy := 2\<rparr>" "()" 2 "()" 2 "succeeded\<lparr>r_multisig_info := ''g1-ii''\<rparr>" 2]
        init_escrow_replaces_pending [of b1_finalized "Some ''b1''" _ canned_engine "at 5"]
  by (simp add: b1_pending_eval b1_finalized_eval truthy_string_def canned_defs eval_nat_numeral)

subsection \<open>The sweep\<close>

lemma cleanup_loop_pendingEscrows:
  "pendingEscrows (cleanup_loop now es st)
   = filter (\<lambda>entry. fst entry \<notin> fst ` {x \<in> set es. stale now (snd x)}) (pendingEscrows st)"
proof (induction es arbitrary: st)
  case Nil
  then show ?case by simp
next
  case (Cons e es)
  obtain k v where e: "e = (k, v)" by (cases e)
  show ?case
  proof (cases "stale now v")
    case True
    have "{x \<in> set (e # es). stale now (snd x)} = insert e {x \<in> set es. stale now (snd x)}"
      using True e by auto
    then show ?thesis
      using True e Cons.IH
      by (auto simp: AList.delete_eq wallet_delete_def console_log_def intro!: filter_cong)
  next
    case False
    have "{x \<in> set (e # es). stale now (snd x)} = {x \<in> set es. stale now (snd x)}"
      using False e by auto
    then show ?thesis
      using False e Cons.IH by simp
  qed
qed

lemma cleanup_loop_deleted:
  "deleted (cleanup_loop now es st)
   = deleted st @ map (\<lambda>entry. p_wallet (snd entry)) (filter (\<lambda>entry. stale now (snd entry)) es)"
  by (induction es arbitrary: st) (auto simp: wallet_delete_def console_log_def)

lemma cleanup_loop_others:
  "bountyData (cleanup_loop now es st) = bountyData st
   \<and> activeWallets (cleanup_loop now es st) = activeWallets st
   \<and> heap (cleanup_loop now es st) = heap st
   \<and> next_wallet (cleanup_loop now es st) = next_wallet st
   \<and> isInitialized (cleanup_loop now es st) = isInitialized st
   \<and> bounties_json (cleanup_loop now es st) = bounties_json st"
  by (induction now es st rule: cleanup_loop.induct) (simp_all add: wallet_delete_def console_log_def)

lemma stale_keys_distinct:
  assumes "distinct (map fst al)"
  shows "filter (\<lambda>entry. fst entry \<notin> fst ` {x \<in> set al. P (snd x)}) al
         = filter (\<lambda>entry. \<not> P (snd entry)) al"
proof (rule filter_cong[OF refl])
  fix x assume x: "x \<in> set al"
  have "\<And>y. y \<in> set al \<Longrightarrow> fst y = fst x \<Longrightarrow> y = x"
    using assms x by (metis eq_key_imp_eq_value prod.collapse)
  then show "(fst x \<notin> fst ` {x \<in> set al. P (snd x)}) = (\<not> P (snd x))"
    using x by force
qed

lemma cleanup_pendingEscrows:
  "distinct (map fst (pendingEscrows st)) \<Longrightarrow>
   pendingEscrows (cleanup now st) = filter (\<lambda>entry. \<not> stale now (snd entry)) (pendingEscrows st)"
  by (simp add: cleanup_def cleanup_loop_pendingEscrows stale_keys_distinct)

lemma map_of_filter_distinct:
  "distinct (map fst al) \<Longrightarrow> map_of al k = Some v \<Longrightarrow>
   map_of (filter (\<lambda>entry. Q (snd entry)) al) k = (if Q v then Some v else None)"
  by (induction al) (auto simp: map_of_eq_None_iff image_iff split: if_splits)

lemma count_list_once:
  "distinct (map f xs) \<Longrightarrow> x \<in> set xs \<Longrightarrow> P x \<Longrightarrow> count_list (map f (filter P xs)) (f x) = 1"
proof (induction xs)
  case Nil
  then show ?case by simp
next
  case (Cons y ys)
  show ?case
  proof (cases "x = y")
    case True
    have "f y \<notin> set (map f (filter P ys))" using Cons.prems(1) by auto
    then show ?thesis using True Cons.prems by (simp add: count_list_0_iff)
  next
    case False
    then have "f y \<noteq> f x" using Cons.prems by auto
    then show ?thesis using False Cons by auto
  qed
qed

lemma two_pending_eval:
  "pendingEscrows two_pending
     = [(''b1'', \<lparr>p_wallet = 0, p_guardian_round1 = ''g1-i'', p_created_at = 0\<rparr>),
        (''b2'', \<lparr>p_wallet = 1, p_guardian_round1 = ''g1-ii'', p_created_at = 200000\<rparr>)]"
  "deleted two_pending = []"
  "bountyData two_pending = []"
  by (simp_all add: two_pending_def handler_defs canned_defs eval_nat_numeral)

text \<open>
  C7. Let the pending table have distinct keys (it is a \<open>Map\<close>) and distinct wallets, and let
  a session be in it. After one sweep at time \<open>now\<close>: if the session's age \<open>now - created_at\<close>
  exceeds 5 minutes, it is absent and \<open>delete()\<close> was called on its wallet exactly once
  during the sweep; if its age is at most 5 minutes, its entry is unchanged and its wallet
  was not released. The sweep releases exactly the wallets of the stale entries, in table
  order, and the timer is set with a period of one minute.
\<close>

theorem cleanup_evicts_stale:
  assumes "distinct (map fst (pendingEscrows st))"
    and "distinct (map (\<lambda>entry. p_wallet (snd entry)) (pendingEscrows st))"
    and "map_of (pendingEscrows st) id' = Some escrow"
  shows "(now - p_created_at escrow > 5 * 60 * 1000 \<longrightarrow>
            map_of (pendingEscrows (cleanup now st)) id' = None
          \<and> count_list (drop (length (deleted st)) (deleted (cleanup now st))) (p_wallet escrow) = 1)
       \<and> (now - p_created_at escrow \<le> 5 * 60 * 1000 \<longrightarrow>
            map_of (pendingEscrows (cleanup now st)) id' = Some escrow
          \<and> p_wallet escrow \<notin> set (drop (length (deleted st)) (deleted (cleanup now st))))
       \<and> deleted (cleanup now st)
           = deleted st @ map (\<lambda>entry. p_wallet (snd entry))
                            (filter (\<lambda>entry. stale now (snd entry)) (pendingEscrows st))
       \<and> SWEEP_PERIOD_MS = 60 * 1000"
proof -
  have mem: "(id', escrow) \<in> set (pendingEscrows st)"
    using assms(3) by (rule map_of_SomeD)
  have del: "deleted (cleanup now st)
           = deleted st @ map (\<lambda>entry. p_wallet (snd entry))
                            (filter (\<lambda>entry. stale now (snd entry)) (pendingEscrows st))"
    by (simp add: cleanup_def cleanup_loop_deleted)
  have look: "map_of (pendingEscrows (cleanup now st)) id' = (if \<not> stale now escrow then Some escrow else None)"
    using map_of_filter_distinct [OF assms(1,3), of "\<lambda>e. \<not> stale now e"]
    by (simp add: cleanup_pendingEscrows [OF assms(1)])
  have once: "stale now escrow \<Longrightarrow>
      count_list (map (\<lambda>entry. p_wallet (snd entry))
                    (filter (\<lambda>entry. stale now (snd entry)) (pendingEscrows st))) (p_wallet escrow) = 1"
    using count_list_once [OF assms(2) mem, of "\<lambda>entry. stale now (snd entry)"] by simp
  have never: "\<not> stale now escrow \<Longrightarrow>
      p_wallet escrow \<notin> set (map (\<lambda>entry. p_wallet (snd entry))
                    (filter (\<lambda>entry. stale now (snd entry)) (pendingEscrows st)))"
  proof
    assume fresh: "\<not> stale now escrow"
      and "p_wallet escrow \<in> set (map (\<lambda>entry. p_wallet (snd entry))
                    (filter (\<lambda>entry. stale now (snd entry)) (pendingEscrows st)))"
    then obtain y where y: "y \<in> set (pendingEscrows st)" "stale now (snd y)"
        "p_wallet (snd y) = p_wallet escrow" by auto
    from assms(2) have "inj_on (\<lambda>entry. p_wallet (snd entry)) (set (pendingEscrows st))"
      by (simp add: distinct_map)
    from inj_onD [OF this _ y(1) mem] y(3) have "y = (id', escrow)"
      by simp
    with y(2) fresh show False by simp
  qed
  have period: "SWEEP_PERIOD_MS = 60 * 1000"
    by (simp add: SWEEP_PERIOD_MS_def)
  have age: "stale now escrow = (now - p_created_at escrow > 5 * 60 * 1000)"
    by (simp add: stale_def TTL_MS_def)
  have A: "now - p_created_at escrow > 5 * 60 * 1000 \<longrightarrow>
            map_of (pendingEscrows (cleanup now st)) id' = None
          \<and> count_list (drop (length (deleted st)) (deleted (cleanup now st))) (p_wallet escrow) = 1"
    using look once by (simp add: del age)
  have B: "now - p_created_at escrow \<le> 5 * 60 * 1000 \<longrightarrow>
            map_of (pendingEscrows (cleanup now st)) id' = Some escrow
          \<and> p_wallet escrow \<notin> set (drop (length (deleted st)) (deleted (cleanup now st)))"
    using look never by (simp add: del age)
  from A B del period show ?thesis by blast
qed


text \<open>
  With sessions begun at 0 and at 200000 ms: a sweep at 300001 ms evicts the first only;
  a sweep at exactly 300000 ms evicts nothing.
\<close>

theorem cleanup_evicts_stale_witness:
  "distinct (map fst (pendingEscrows two_pending))
   \<and> distinct (map (\<lambda>entry. p_wallet (snd entry)) (pendingEscrows two_pending))
   \<and> map_of (pendingEscrows (cleanup 300001 two_pending)) ''b1'' = None
   \<and> map_of (pendingEscrows (cleanup 300001 two_pending)) ''b2''
       = Some \<lparr>p_wallet = 1, p_guardian_round1 = ''g1-ii'', p_created_at = 200000\<rparr>
   \<and> deleted (cleanup 300001 two_pending) = [0]
   \<and> map_of (pendingEscrows (cleanup 300000 two_pending)) ''b1''
       = Some \<lparr>p_wallet = 0, p_guardian_round1 = ''g1-i'', p_created_at = 0\<rparr>
   \<and> deleted (cleanup 300000 two_pending) = []"
  using cleanup_evicts_stale [of two_pending "''b1''"
          "\<lparr>p_wallet = 0, p_guardian_round1 = ''g1-i'', p_created_at = 0\<rparr>" 300001]
        cleanup_evicts_stale [of two_pending "''b2''"
          "\<lparr>p_wallet = 1, p_guardian_round1 = ''g1-ii'', p_created_at = 200000\<rparr>" 300001]
        cleanup_evicts_stale [of two_pending "''b1''"
          "\<lparr>p_wallet = 0, p_guardian_round1 = ''g1-i'', p_created_at = 0\<rparr>" 300000]
  by (simp add: two_pending_eval stale_def TTL_MS_def)

subsection \<open>No id in both tables\<close>

lemma has_update: "has (AList.update k v al) k' = (k' = k \<or> has al k')"
  by (simp add: has_def AList.update_conv')

lemma has_delete: "has (AList.delete k al) k' = (k' \<noteq> k \<and> has al k')"
  by (simp add: has_def AList.delete_conv')

lemma init_escrow_bountyData:
  "bountyData (snd (init_escrow eng env st bounty_id)) = bountyData st"
  by (simp add: init_escrow_def init_escrow_try_def try_catch_def call_def console_log_def
        wallet_delete_def Let_def split: option.splits prod.splits outcome.splits sum.splits)

lemma init_escrow_has_pending:
  "has (pendingEscrows (snd (init_escrow eng env st bounty_id))) k \<longrightarrow>
     has (pendingEscrows st) k \<or> (k = the bounty_id \<and> \<not> has (bountyData st) k)"
  by (simp add: init_escrow_def init_escrow_try_def try_catch_def call_def console_log_def
        wallet_delete_def Let_def has_update has_delete
      split: option.splits prod.splits outcome.splits sum.splits)


lemma finalize_escrow_has:
  "(has (pendingEscrows (snd (finalize_escrow eng env st bounty_id deadline_block server_round1
        server_round2 worker_round1 worker_round2))) k \<longrightarrow> has (pendingEscrows st) k)
   \<and> (has (bountyData (snd (finalize_escrow eng env st bounty_id deadline_block server_round1
        server_round2 worker_round1 worker_round2))) k \<longrightarrow>
        has (bountyData st) k
        \<or> (k = the bounty_id
            \<and> \<not> has (pendingEscrows (snd (finalize_escrow eng env st bounty_id deadline_block
                   server_round1 server_round2 worker_round1 worker_round2))) k))"
  by (simp add: finalize_escrow_def finalize_escrow_try_def try_catch_def call_def console_log_def
        saveBountyState_def Let_def has_update has_delete
      split: option.splits prod.splits outcome.splits sum.splits)

lemma sync_outputs_tables:
  "pendingEscrows (snd (sync_outputs eng st bounty_id other)) = pendingEscrows st
   \<and> bountyData (snd (sync_outputs eng st bounty_id other)) = bountyData st"
  by (simp add: sync_outputs_def sync_outputs_try_def try_catch_def call_def console_log_def Let_def
      split: option.splits prod.splits outcome.splits sum.splits)

lemma sign_refund_tables:
  "pendingEscrows (snd (sign_refund eng st bounty_id current_block tx)) = pendingEscrows st
   \<and> bountyData (snd (sign_refund eng st bounty_id current_block tx)) = bountyData st"
  by (simp add: sign_refund_def sign_refund_try_def sign_refund_engine_def describe_tx_def
        try_catch_def call_def console_log_def Let_def
      split: option.splits prod.splits outcome.splits sum.splits)

lemma sign_payout_tables:
  "pendingEscrows (snd (sign_payout eng st bounty_id tx reason)) = pendingEscrows st
   \<and> bountyData (snd (sign_payout eng st bounty_id tx reason)) = bountyData st"
  by (simp add: sign_payout_def sign_payout_try_def describe_tx_def
        try_catch_def call_def console_log_def Let_def
      split: option.splits prod.splits outcome.splits sum.splits)

lemma has_iff: "has al k = (k \<in> fst ` set al)"
  by (simp add: has_def map_of_eq_None_iff)

lemma cleanup_has:
  "has (pendingEscrows (cleanup now st)) k \<Longrightarrow> has (pendingEscrows st) k"
  by (auto simp: has_iff cleanup_def cleanup_loop_pendingEscrows)

lemma cleanup_bountyData: "bountyData (cleanup now st) = bountyData st"
  by (simp add: cleanup_def cleanup_loop_others)

lemma step_in_both:
  assumes that: "in_both (step eng st ev) k"
  shows "in_both st k"
proof (cases ev)
  case (Request env rq)
  show ?thesis
  proof (cases rq)
    case (Init_escrow bounty_id)
    with Request show ?thesis
      using init_escrow_has_pending [of eng env st bounty_id k] that
      by (auto simp: in_both_def init_escrow_bountyData)
  next
    case (Finalize_escrow bounty_id deadline_block server_round1 server_round2 worker_round1 worker_round2)
    with Request show ?thesis
      using finalize_escrow_has [of eng env st bounty_id deadline_block server_round1 server_round2
              worker_round1 worker_round2 k] that
      by (auto simp: in_both_def)
  qed (use Request that in \<open>simp_all add: in_both_def sync_outputs_tables sign_refund_tables sign_payout_tables\<close>)
next
  case (Sweep now)
  then show ?thesis
    using that by (auto simp: in_both_def cleanup_bountyData dest: cleanup_has)
qed

lemma run_in_both: "in_both (run eng st evs) k \<Longrightarrow> in_both st k"
  by (induction evs arbitrary: st) (auto dest: step_in_both)

lemma main_pendingEscrows: "pendingEscrows (main eng file) = []"
  by (simp add: main_def loadBountyState_def console_log_def Let_def split: option.splits)


lemma init_escrow_success_tables:
  "fst (fst (init_escrow eng env st bounty_id)) = 200 \<longrightarrow>
     has (pendingEscrows (snd (init_escrow eng env st bounty_id))) (the bounty_id)
     \<and> \<not> has (bountyData (snd (init_escrow eng env st bounty_id))) (the bounty_id)"
  by (simp add: init_escrow_def init_escrow_try_def try_catch_def call_def console_log_def
        wallet_delete_def not_initialized_def Let_def has_update has_delete
      split: option.splits prod.splits outcome.splits sum.splits)

lemma finalize_escrow_success_tables:
  "fst (fst (finalize_escrow eng env st bounty_id deadline_block server_round1 server_round2
               worker_round1 worker_round2)) = 200 \<longrightarrow>
     \<not> has (pendingEscrows (snd (finalize_escrow eng env st bounty_id deadline_block server_round1
               server_round2 worker_round1 worker_round2))) (the bounty_id)
     \<and> has (bountyData (snd (finalize_escrow eng env st bounty_id deadline_block server_round1
               server_round2 worker_round1 worker_round2))) (the bounty_id)"
  by (simp add: finalize_escrow_def finalize_escrow_try_def try_catch_def call_def console_log_def
        saveBountyState_def not_initialized_def finalize_missing_fields_def pending_not_found_def
        Let_def has_update has_delete
      split: option.splits prod.splits outcome.splits sum.splits)

lemma b1_begin_eval:
  "init_escrow canned_engine (at 0) (main canned_engine None) (Some ''b1'')
   = ((200, [(''success'', JBool True), (''bounty_id'', JStr ''b1''),
             (''guardian_round1'', JStr ''g1-i'')]), b1_pending)"
  by (simp add: prod_eq_iff b1_pending_def) (simp add: handler_defs canned_defs)

lemma b1_run:
  "run canned_engine (main canned_engine None)
     [Request (at 0) (Init_escrow (Some ''b1'')),
      Request (at 1000) (Finalize_escrow (Some ''b1'') (Some 1000000)
         (Some ''s1'') (Some ''s2'') (Some ''w1'') (Some ''w2''))] = b1_finalized"
  by (simp add: b1_finalized_def b1_pending_def)

text \<open>
  A begin for \<open>b1\<close> succeeds; a sweep more than five minutes later evicts the session, and
  \<open>b1\<close> is then in neither table, with no deletion from outside.
\<close>

theorem begin_then_sweep_counterexample:
  "fst (fst (handle canned_engine (at 0) (main canned_engine None) (Init_escrow (Some ''b1'')))) = 200
   \<and> \<not> has (pendingEscrows (run canned_engine (main canned_engine None)
               [Request (at 0) (Init_escrow (Some ''b1'')), Sweep 300001])) ''b1''
   \<and> \<not> has (bountyData (run canned_engine (main canned_engine None)
               [Request (at 0) (Init_escrow (Some ''b1'')), Sweep 300001])) ''b1''"
  by (simp add: handler_defs canned_defs cleanup_def stale_def TTL_MS_def)

text \<open>
  C6 (amended). In every state reached from startup by any sequence of requests and sweeps,
  no id is in both the pending table and the bounty registry. Directly after a begin that
  answers success the id is in exactly one of them, the pending table; directly after a
  finalize that answers success it is in exactly one, the registry. (It need not stay in
  one: a sweep past the TTL leaves a pending id in neither.)
\<close>

theorem tables_disjoint:
  "\<not> (has (pendingEscrows (run eng (main eng saved) evs)) k
       \<and> has (bountyData (run eng (main eng saved) evs)) k)
   \<and> (fst (fst (init_escrow eng env st bounty_id)) = 200 \<longrightarrow>
        has (pendingEscrows (snd (init_escrow eng env st bounty_id))) (the bounty_id)
        \<and> \<not> has (bountyData (snd (init_escrow eng env st bounty_id))) (the bounty_id))
   \<and> (fst (fst (finalize_escrow eng env st bounty_id deadline_block server_round1 server_round2
                   worker_round1 worker_round2)) = 200 \<longrightarrow>
        \<not> has (pendingEscrows (snd (finalize_escrow eng env st bounty_id deadline_block
                   server_round1 server_round2 worker_round1 worker_round2))) (the bounty_id)
        \<and> has (bountyData (snd (finalize_escrow eng env st bounty_id deadline_block
                   server_round1 server_round2 worker_round1 worker_round2))) (the bounty_id))"
proof -
  have "\<not> in_both (main eng saved) k"
    by (simp add: in_both_def main_pendingEscrows has_def)
  then have "\<not> in_both (run eng (main eng saved) evs) k"
    using run_in_both by blast
  then show ?thesis
    using init_escrow_success_tables finalize_escrow_success_tables
    unfolding in_both_def by blast
qed

text \<open>The example run: \<open>b1\<close> is pending after begin and in the registry after finalize.\<close>

theorem tables_disjoint_witness:
  "run canned_engine (main canned_engine None)
     [Request (at 0) (Init_escrow (Some ''b1'')),
      Request (at 1000) (Finalize_escrow (Some ''b1'') (Some 1000000)
         (Some ''s1'') (Some ''s2'') (Some ''w1'') (Some ''w2''))] = b1_finalized
   \<and> \<not> has (pendingEscrows b1_finalized) ''b1'' \<and> has (bountyData b1_finalized) ''b1''
   \<and> fst (fst (init_escrow canned_engine (at 0) (main canned_engine None) (Some ''b1''))) = 200
   \<and> has (pendingEscrows b1_pending) ''b1'' \<and> \<not> has (bountyData b1_pending) ''b1''
   \<and> fst (fst (finalize_escrow canned_engine (at 1000) b1_pending (Some ''b1'') (Some 1000000)
                  (Some ''s1'') (Some ''s2'') (Some ''w1'') (Some ''w2''))) = 200"
  using tables_disjoint [where eng = canned_engine and saved = None and k = "''b1''"
          and evs = "[Request (at 0) (Init_escrow (Some ''b1'')),
            Request (at 1000) (Finalize_escrow (Some ''b1'') (Some 1000000)
              (Some ''s1'') (Some ''s2'') (Some ''w1'') (Some ''w2''))]"
          and env = "at 0" and st = "main canned_engine None" and bounty_id = "Some ''b1''"
          and deadline_block = None and ?server_round1.0 = None and ?server_round2.0 = None
          and ?worker_round1.0 = None and ?worker_round2.0 = None]
        tables_disjoint [where eng = canned_engine and saved = None and k = "''b1''" and evs = "[]"
          and env = "at 1000" and st = b1_pending and bounty_id = "Some ''b1''"
          and deadline_block = "Some 1000000" and ?server_round1.0 = "Some ''s1''"
          and ?server_round2.0 = "Some ''s2''" and ?worker_round1.0 = "Some ''w1''"
          and ?worker_round2.0 = "Some ''w2''"]
  by (simp add: b1_run b1_begin_eval b1_finalize_eval b1_finalized_eval b1_pending_eval has_def)

subsection \<open>The recovery seed stays inside\<close>

lemma redact_fields [simp]:
  "b_bounty_id (redact b) = b_bounty_id b"
  "b_deadline_block (redact b) = b_deadline_block b"
  "b_multisig_address (redact b) = b_multisig_address b"
  "b_is_ready (redact b) = b_is_ready b"
  "b_created_at (redact b) = b_created_at b"
  "redact (redact b) = redact b"
  by (simp_all add: redact_def)

lemma map_of_redact_all [simp]: "map_of (redact_all al) k = map_option redact (map_of al k)"
  by (induction al) (auto simp: redact_all_def)

lemma redact_all_update [simp]:
  "redact_all (AList.update k v al) = AList.update k (redact v) (redact_all al)"
  by (induction al) (auto simp: redact_all_def)

lemma redact_all_idem [simp]: "redact_all (redact_all al) = redact_all al"
  by (induction al) (auto simp: redact_all_def)

lemma redact_object_idem [simp]: "redact_object (redact_object data) = redact_object data"
  by (simp add: redact_object_def fun_eq_iff option.map_comp comp_def)

lemma redact_file_idem [simp]:
  "map_option redact_object (map_option redact_object saved) = map_option redact_object saved"
  by (cases saved) simp_all

lemma redact_object_update: "redact_object (data(k \<mapsto> v)) = (redact_object data)(k \<mapsto> redact v)"
  by (simp add: redact_object_def fun_eq_iff)

lemma fold_object_redact:
  "fold (\<lambda>(id', info) data. if id' = ''__proto__'' then data else data(id' \<mapsto> info))
     (redact_all al) (redact_object acc)
   = redact_object
       (fold (\<lambda>(id', info) data. if id' = ''__proto__'' then data else data(id' \<mapsto> info)) al acc)"
proof (induction al arbitrary: acc)
  case Nil
  show ?case by (simp add: redact_all_def)
next
  case (Cons e al)
  let ?assign = "\<lambda>(id', info) data. if id' = ''__proto__'' then data else data(id' \<mapsto> info)"
  obtain k v where e: "e = (k, v)" by (cases e)
  have split: "redact_all ((a, b) # al) = (a, redact b) # redact_all al" for a b
    by (simp add: redact_all_def)
  have "fold ?assign (redact_all ((k, v) # al)) (redact_object acc)
        = redact_object (fold ?assign ((k, v) # al) acc)"
  proof (cases "k = ''__proto__''")
    case True
    then show ?thesis using Cons.IH [of acc] by (simp add: split)
  next
    case False
    then have "fold ?assign (redact_all ((k, v) # al)) (redact_object acc)
               = fold ?assign (redact_all al) ((redact_object acc)(k \<mapsto> redact v))"
      by (simp add: split)
    also have "\<dots> = fold ?assign (redact_all al) (redact_object (acc(k \<mapsto> v)))"
      by (simp only: redact_object_update)
    also have "\<dots> = redact_object (fold ?assign al (acc(k \<mapsto> v)))"
      by (rule Cons.IH)
    also have "\<dots> = redact_object (fold ?assign ((k, v) # al) acc)"
      using False by simp
    finally show ?thesis .
  qed
  then show ?case unfolding e .
qed

lemma object_of_redact [simp]: "redact_object (object_of al) = object_of (redact_all al)"
proof -
  have "redact_object Map.empty = Map.empty"
    by (simp add: redact_object_def fun_eq_iff)
  with fold_object_redact [of al Map.empty] show ?thesis
    by (simp add: object_of_def)
qed

lemma has_redact_all [simp]: "has (redact_all al) k = has al k"
  by (simp add: has_def)

lemma size_of_redact_all [simp]: "size_of (redact_all al) = size_of al"
  by (simp add: size_of_def redact_all_def)

lemma summary_redact_all [simp]: "map bounty_summary (redact_all al) = map bounty_summary al"
  by (induction al) (auto simp: redact_all_def bounty_summary_def)

lemma public_fields [simp]:
  "isInitialized (public st) = isInitialized st"
  "pendingEscrows (public st) = pendingEscrows st"
  "activeWallets (public st) = activeWallets st"
  "heap (public st) = heap st"
  "next_wallet (public st) = next_wallet st"
  "deleted (public st) = deleted st"
  "console (public st) = console st"
  "bountyData (public st) = redact_all (bountyData st)"
  "bounties_json (public st) = map_option redact_object (bounties_json st)"
  by (simp_all add: public_def)

lemma reseed_fields [simp]:
  "new_WasmWallet (reseed f eng) = new_WasmWallet eng"
  "create_random (reseed f eng) = create_random eng"
  "enable_multisig_experimental (reseed f eng) = enable_multisig_experimental eng"
  "prepare_multisig (reseed f eng) = prepare_multisig eng"
  "make_multisig (reseed f eng) = make_multisig eng"
  "exchange_multisig_keys (reseed f eng) = exchange_multisig_keys eng"
  "export_multisig_info (reseed f eng) = export_multisig_info eng"
  "import_multisig_info (reseed f eng) = import_multisig_info eng"
  "describe_multisig_tx_hex (reseed f eng) = describe_multisig_tx_hex eng"
  "sign_multisig_tx_hex (reseed f eng) = sign_multisig_tx_hex eng"
  by (simp_all add: reseed_def)

lemma reseed_id: "reseed (\<lambda>seed. seed) eng = eng"
proof -
  have "(\<lambda>w password. case get_seed eng w password of
            (Threw err, w') \<Rightarrow> (Threw err, w')
          | (Returned seed, w') \<Rightarrow> (Returned seed, w')) = get_seed eng"
    by (auto simp: fun_eq_iff split: prod.splits outcome.splits)
  then show ?thesis by (simp add: reseed_def)
qed

lemma health_public: "health (public st) = health st"
  by (simp add: health_def)

lemma get_bounty_public: "get_bounty (public st) k = get_bounty st k"
  by (simp add: get_bounty_def split: option.splits)

lemma get_bounties_public: "get_bounties (public st) = get_bounties st"
  by (simp add: get_bounties_def)




lemma call_public: "call w m (public st) = map_prod (\<lambda>r. r) public (call w m st)"
  by (simp add: call_def public_def split: prod.splits)

lemma console_log_public: "console_log l (public st) = public (console_log l st)"
  by (simp add: console_log_def public_def)

lemma wallet_delete_public: "wallet_delete w (public st) = public (wallet_delete w st)"
  by (simp add: wallet_delete_def public_def)

lemma public_updates:
  "(public st)\<lparr>pendingEscrows := p\<rparr> = public (st\<lparr>pendingEscrows := p\<rparr>)"
  "(public st)\<lparr>activeWallets := a\<rparr> = public (st\<lparr>activeWallets := a\<rparr>)"
  "(public st)\<lparr>heap := h, next_wallet := n\<rparr> = public (st\<lparr>heap := h, next_wallet := n\<rparr>)"
  by (simp_all add: public_def)

lemma try_catch_public:
  "try_catch l (map_prod (\<lambda>r. r) public x) = map_prod (\<lambda>r. r) public (try_catch l x)"
  by (cases x) (simp add: try_catch_def console_log_public split: sum.splits)

lemma describe_tx_public:
  "describe_tx eng l w tx (public st) = map_prod (\<lambda>r. r) public (describe_tx eng l w tx st)"
  by (simp add: describe_tx_def call_public console_log_public
      split: option.splits prod.splits outcome.splits)

lemma describe_tx_reseed: "describe_tx (reseed f eng) = describe_tx eng"
  by (simp add: fun_eq_iff describe_tx_def)

lemma public_public [simp]: "public (public st) = public st"
  by (simp add: public_def)

lemma map_public_idem [simp]:
  "map_prod (\<lambda>r. r) public (map_prod (\<lambda>r. r) public x) = map_prod (\<lambda>r. r) public x"
  by (cases x) simp

lemma sign_payout_try_reseed:
  "sign_payout_try (reseed f eng) bounty_id tx reason st = sign_payout_try eng bounty_id tx reason st"
  by (simp add: sign_payout_try_def describe_tx_reseed Let_def
      split: option.splits prod.splits outcome.splits)

lemma sign_payout_try_public:
  "sign_payout_try eng bounty_id tx reason (public st)
   = map_prod (\<lambda>r. r) public (sign_payout_try eng bounty_id tx reason st)"
  by (simp add: sign_payout_try_def Let_def describe_tx_public call_public console_log_public
      split: option.splits prod.splits outcome.splits)

lemma sign_payout_public:
  "map_prod (\<lambda>r. r) public (sign_payout (reseed f eng) st bounty_id tx reason)
   = map_prod (\<lambda>r. r) public (sign_payout eng (public st) bounty_id tx reason)"
  by (simp add: sign_payout_def sign_payout_try_reseed sign_payout_try_public try_catch_public
      split: option.splits)

lemma sign_refund_try_reseed:
  "sign_refund_try (reseed f eng) bounty_id tx st = sign_refund_try eng bounty_id tx st"
  by (simp add: sign_refund_try_def sign_refund_engine_def describe_tx_reseed
      split: option.splits prod.splits outcome.splits)

lemma sign_refund_try_public:
  "sign_refund_try eng bounty_id tx (public st)
   = map_prod (\<lambda>r. r) public (sign_refund_try eng bounty_id tx st)"
  by (simp add: sign_refund_try_def sign_refund_engine_def describe_tx_public call_public
        console_log_public
      split: option.splits prod.splits outcome.splits)

lemma sign_refund_public:
  "map_prod (\<lambda>r. r) public (sign_refund (reseed f eng) st bounty_id current_block tx)
   = map_prod (\<lambda>r. r) public (sign_refund eng (public st) bounty_id current_block tx)"
  by (simp add: sign_refund_def sign_refund_try_reseed sign_refund_try_public try_catch_public
      split: option.splits)

lemma sync_outputs_try_reseed:
  "sync_outputs_try (reseed f eng) bounty_id other st = sync_outputs_try eng bounty_id other st"
  by (simp add: sync_outputs_try_def Let_def
      cong: option.case_cong prod.case_cong outcome.case_cong if_cong)

lemma sync_outputs_try_public:
  "sync_outputs_try eng bounty_id other (public st)
   = map_prod (\<lambda>r. r) public (sync_outputs_try eng bounty_id other st)"
  by (simp add: sync_outputs_try_def Let_def call_public console_log_public
      split: option.splits prod.splits outcome.splits)

lemma sync_outputs_public:
  "map_prod (\<lambda>r. r) public (sync_outputs (reseed f eng) st bounty_id other)
   = map_prod (\<lambda>r. r) public (sync_outputs eng (public st) bounty_id other)"
  by (simp add: sync_outputs_def sync_outputs_try_reseed sync_outputs_try_public try_catch_public
      split: option.splits)

lemma init_escrow_try_reseed:
  "init_escrow_try (reseed f eng) env bounty_id st = init_escrow_try eng env bounty_id st"
  by (simp add: init_escrow_try_def Let_def split: option.splits prod.splits outcome.splits)

lemma init_escrow_try_public:
  "init_escrow_try eng env bounty_id (public st)
   = map_prod (\<lambda>r. r) public (init_escrow_try eng env bounty_id st)"
  by (simp add: init_escrow_try_def Let_def call_public console_log_public wallet_delete_public
        public_updates
      split: option.splits prod.splits outcome.splits)

lemma init_escrow_public:
  "map_prod (\<lambda>r. r) public (init_escrow (reseed f eng) env st bounty_id)
   = map_prod (\<lambda>r. r) public (init_escrow eng env (public st) bounty_id)"
  by (simp add: init_escrow_def init_escrow_try_reseed init_escrow_try_public try_catch_public
        wallet_delete_public public_updates Let_def
      split: option.splits)


lemma get_seed_reseed:
  "call w (\<lambda>w. get_seed (reseed f eng) w pw) st
   = (case call w (\<lambda>w. get_seed eng w pw) st of
        (Threw err, st') \<Rightarrow> (Threw err, st')
      | (Returned seed, st') \<Rightarrow> (Returned (f seed), st'))"
  by (simp add: call_def reseed_def split: prod.splits outcome.splits)

lemma finalize_escrow_try_public:
  "map_prod (\<lambda>r. r) public
     (finalize_escrow_try (reseed f eng) env bounty_id deadline_block server_round1 server_round2
        worker_round1 worker_round2 pending st)
   = map_prod (\<lambda>r. r) public
     (finalize_escrow_try eng env bounty_id deadline_block server_round1 server_round2
        worker_round1 worker_round2 pending (public st))"
  apply (simp add: finalize_escrow_try_def Let_def call_public console_log_public public_updates
        get_seed_reseed saveBountyState_def
      split: prod.splits outcome.splits option.splits)
  apply (simp add: public_def redact_def)
  done

lemma finalize_escrow_public:
  "map_prod (\<lambda>r. r) public
     (finalize_escrow (reseed f eng) env st bounty_id deadline_block server_round1 server_round2
        worker_round1 worker_round2)
   = map_prod (\<lambda>r. r) public
     (finalize_escrow eng env (public st) bounty_id deadline_block server_round1 server_round2
        worker_round1 worker_round2)"
proof -
  have "map_prod (\<lambda>r. r) public
          (try_catch l (finalize_escrow_try (reseed f eng) env b d s1 s2 w1 w2 p st))
        = map_prod (\<lambda>r. r) public
          (try_catch l (finalize_escrow_try eng env b d s1 s2 w1 w2 p (public st)))"
    for l b d s1 s2 w1 w2 p
    unfolding try_catch_public [symmetric] finalize_escrow_try_public ..
  then show ?thesis
    by (simp add: finalize_escrow_def split: option.splits)
qed


lemma cleanup_loop_public: "cleanup_loop now es (public st) = public (cleanup_loop now es st)"
proof (induction es arbitrary: st)
  case Nil
  show ?case by simp
next
  case (Cons e es)
  obtain k v where e: "e = (k, v)" by (cases e)
  show ?case
    by (cases "stale now v")
       (simp_all add: e Cons.IH wallet_delete_public console_log_public public_updates)
qed

lemma cleanup_public: "cleanup now (public st) = public (cleanup now st)"
  by (simp add: cleanup_def cleanup_loop_public)

lemma handle_public:
  "map_prod (\<lambda>r. r) public (handle (reseed f eng) env st rq)
   = map_prod (\<lambda>r. r) public (handle eng env (public st) rq)"
  by (cases rq)
     (simp_all add: health_public get_bounty_public get_bounties_public init_escrow_public
        finalize_escrow_public sync_outputs_public sign_refund_public sign_payout_public)

lemma handle_public_fst:
  "fst (handle (reseed f eng) env st rq) = fst (handle eng env (public st) rq)"
  using arg_cong [OF handle_public [of f eng env st rq], of fst] by simp

lemma handle_public_snd:
  "public (snd (handle (reseed f eng) env st rq)) = public (snd (handle eng env (public st) rq))"
  using arg_cong [OF handle_public [of f eng env st rq], of snd] by simp

lemma responses_public: "responses (reseed f eng) st evs = responses eng (public st) evs"
proof (induction evs arbitrary: st f)
  case Nil
  show ?case by simp
next
  case (Cons ev evs)
  have plain: "responses eng s evs = responses eng (public s) evs" for s
    using Cons.IH [of "\<lambda>seed. seed" s] by (simp add: reseed_id)
  show ?case
  proof (cases ev)
    case (Request env rq)
    have "responses (reseed f eng) (snd (handle (reseed f eng) env st rq)) evs
          = responses eng (public (snd (handle (reseed f eng) env st rq))) evs"
      by (rule Cons.IH)
    also have "\<dots> = responses eng (public (snd (handle eng env (public st) rq))) evs"
      by (simp only: handle_public_snd)
    also have "\<dots> = responses eng (snd (handle eng env (public st) rq)) evs"
      by (rule plain [symmetric])
    finally show ?thesis
      using Request by (simp add: handle_public_fst)
  next
    case (Sweep now)
    then show ?thesis
      using Cons.IH [of f "cleanup now st"] by (simp add: cleanup_public)
  qed
qed

lemma b1_finalized_json:
  "bounties_json b1_finalized = Some (object_of (bountyData b1_finalized))"
  by (simp add: b1_finalized_def b1_pending_def handler_defs canned_defs)

lemma redact_other_seed:
  "redact_object (\<lambda>k. map_option (\<lambda>info. info\<lparr>b_wallet_mnemonic := seed\<rparr>) (data k))
   = redact_object data"
proof -
  have "redact (info\<lparr>b_wallet_mnemonic := seed\<rparr>) = redact info" for info
    by (simp add: redact_def)
  then show ?thesis
    by (simp add: redact_object_def fun_eq_iff option.map_comp comp_def)
qed

text \<open>
  C8. No response depends on a recovery seed. Take two servers that are the same but for the
  seeds stored in their bounty records, and two engines that are the same but for the seed
  text they export. Over every run of requests (health, begin, finalize, sync, refund,
  payout, get record, list records, with any inputs) and sweeps, both give the same list
  of responses: the seed of a stored record, or the one finalize has just obtained, is not
  part of any answer.
\<close>

theorem seed_never_in_responses:
  assumes "same_but_seeds st st'"
  shows "responses (reseed f eng) st evs = responses eng st' evs"
proof -
  have "responses (reseed f eng) st evs = responses eng (public st) evs"
    by (rule responses_public)
  also have "\<dots> = responses eng (public st') evs"
    using assms by (simp add: same_but_seeds_def)
  also have "\<dots> = responses (reseed (\<lambda>seed. seed) eng) st' evs"
    by (rule responses_public [symmetric])
  finally show ?thesis by (simp add: reseed_id)
qed

text \<open>
  The example server with two different seeds for \<open>b1\<close>, an engine exporting other seed
  text, and a session that reads \<open>b1\<close>, lists, finalizes and reads \<open>b2\<close>, signs and sweeps.
\<close>

theorem seed_never_in_responses_witness:
  "same_but_seeds b1_finalized b1_other_seed
   \<and> map (\<lambda>entry. b_wallet_mnemonic (snd entry)) (bountyData b1_finalized) = [''seed-iii'']
   \<and> map (\<lambda>entry. b_wallet_mnemonic (snd entry)) (bountyData b1_other_seed) = [''other words'']
   \<and> responses (reseed (\<lambda>seed. ''redacted'') canned_engine) b1_finalized session
       = responses canned_engine b1_other_seed session
   \<and> responses canned_engine b1_other_seed [Request (at 2000) (Get_bounty ''b1'')]
       = [(200, [(''bounty_id'', JStr ''b1''),
                 (''deadline_block'', JNum 1000000),
                 (''multisig_address'', JStr ''g2-g1-is1w1s2w2''),
                 (''is_ready'', JBool True),
                 (''created_at'', JStr ''2026-01-01T00:00:00.000Z''),
                 (''wallet_in_memory'', JBool True)])]"
proof -
  have same: "same_but_seeds b1_finalized b1_other_seed"
    by (simp add: same_but_seeds_def public_def b1_other_seed_def b1_finalized_json
          redact_other_seed)
       (simp add: b1_finalized_eval redact_all_def redact_def)
  from seed_never_in_responses [OF same, of "\<lambda>seed. ''redacted''" canned_engine session] same
  show ?thesis
    by (simp add: b1_other_seed_def b1_finalized_eval get_bounty_def has_def)
qed

subsection \<open>Reachable states are well formed\<close>

text \<open>
  Every state reached from startup has a pending table with distinct keys and distinct
  wallets: what the property of the sweep asks of the state it starts from.
\<close>

lemma wf_table_filter: "wf_table al n \<Longrightarrow> wf_table (filter P al) n"
  by (auto simp: wf_table_def distinct_map_filter list_all_iff)

lemma wf_table_delete: "wf_table al n \<Longrightarrow> wf_table (AList.delete k al) n"
  by (simp add: AList.delete_eq wf_table_filter)

lemma wf_table_Suc: "wf_table al n \<Longrightarrow> wf_table al (Suc n)"
  by (auto simp: wf_table_def list_all_iff less_Suc_eq)

lemma wf_table_append:
  "wf_table al n \<Longrightarrow> k \<notin> fst ` set al \<Longrightarrow> p_wallet v = n \<Longrightarrow> wf_table (al @ [(k, v)]) (Suc n)"
  by (auto simp: wf_table_def list_all_iff less_Suc_eq)

lemma wf_table_begin:
  "wf_table al n \<Longrightarrow> p_wallet v = n \<Longrightarrow> wf_table (AList.update k v (AList.delete k al)) (Suc n)"
  by (simp add: update_after_delete wf_table_append wf_table_delete AList.delete_notin_dom)

lemma wf_table_begin_new:
  "wf_table al n \<Longrightarrow> map_of al k = None \<Longrightarrow> p_wallet v = n \<Longrightarrow> wf_table (AList.update k v al) (Suc n)"
  by (simp add: update_fresh_key wf_table_append map_of_eq_None_iff)

lemma init_escrow_well_formed:
  "well_formed st \<longrightarrow> well_formed (snd (init_escrow eng env st bounty_id))"
  by (simp add: well_formed_def init_escrow_def init_escrow_try_def try_catch_def call_def
        console_log_def wallet_delete_def Let_def wf_table_begin wf_table_begin_new
        wf_table_delete wf_table_Suc
      split: option.splits prod.splits outcome.splits sum.splits)

lemma finalize_escrow_well_formed:
  "well_formed st \<longrightarrow>
   well_formed (snd (finalize_escrow eng env st bounty_id deadline_block server_round1
                       server_round2 worker_round1 worker_round2))"
  by (simp add: well_formed_def finalize_escrow_def finalize_escrow_try_def try_catch_def call_def
        console_log_def saveBountyState_def Let_def wf_table_delete
      split: option.splits prod.splits outcome.splits sum.splits)

lemma sync_outputs_next_wallet:
  "next_wallet (snd (sync_outputs eng st bounty_id other)) = next_wallet st"
  by (simp add: sync_outputs_def sync_outputs_try_def try_catch_def call_def console_log_def Let_def
      split: option.splits prod.splits outcome.splits sum.splits)

lemma sign_refund_next_wallet:
  "next_wallet (snd (sign_refund eng st bounty_id current_block tx)) = next_wallet st"
  by (simp add: sign_refund_def sign_refund_try_def sign_refund_engine_def describe_tx_def
        try_catch_def call_def console_log_def Let_def
      split: option.splits prod.splits outcome.splits sum.splits)

lemma sign_payout_next_wallet:
  "next_wallet (snd (sign_payout eng st bounty_id tx reason)) = next_wallet st"
  by (simp add: sign_payout_def sign_payout_try_def describe_tx_def
        try_catch_def call_def console_log_def Let_def
      split: option.splits prod.splits outcome.splits sum.splits)

lemma cleanup_well_formed: "well_formed st \<Longrightarrow> well_formed (cleanup now st)"
  by (simp add: well_formed_def cleanup_def cleanup_loop_pendingEscrows cleanup_loop_others
        wf_table_filter)

lemma step_well_formed:
  assumes "well_formed st"
  shows "well_formed (step eng st ev)"
proof (cases ev)
  case (Request env rq)
  show ?thesis
  proof (cases rq)
    case (Init_escrow bounty_id)
    with Request assms show ?thesis
      using init_escrow_well_formed [of st eng env bounty_id] by simp
  next
    case (Finalize_escrow bounty_id deadline_block server_round1 server_round2 worker_round1 worker_round2)
    with Request assms show ?thesis
      using finalize_escrow_well_formed [of st eng env bounty_id deadline_block server_round1
              server_round2 worker_round1 worker_round2] by simp
  qed (use Request assms in \<open>simp_all add: well_formed_def sync_outputs_tables sign_refund_tables
         sign_payout_tables sync_outputs_next_wallet sign_refund_next_wallet sign_payout_next_wallet\<close>)
next
  case (Sweep now)
  with assms show ?thesis by (simp add: cleanup_well_formed)
qed

lemma run_well_formed: "well_formed (run eng (main eng saved) evs)"
proof -
  have start: "well_formed (main eng saved)"
    by (simp add: well_formed_def wf_table_def main_pendingEscrows)
  have "well_formed st \<Longrightarrow> well_formed (run eng st evs)" for st
    by (induction evs arbitrary: st) (simp_all add: step_well_formed)
  from this [OF start] show ?thesis .
qed

lemma run_distinct:
  "distinct (map fst (pendingEscrows (run eng (main eng saved) evs)))"
  "distinct (map (\<lambda>entry. p_wallet (snd entry)) (pendingEscrows (run eng (main eng saved) evs)))"
  using run_well_formed [of eng saved evs] by (simp_all add: well_formed_def wf_table_def)

end
